theory Spec2Isabelle
  imports Complex_Main
begin

section \<open>Python and numpy values\<close>

text \<open>
  The exceptions the modelled code can raise. Every raise of the source is a value
  \<open>Inl e\<close> of the result type \<open>error + 'a\<close>.
\<close>

datatype error =
    KeyError | IndexError | ValueError | ZeroDivisionError | OverflowError
  | TypeError | AttributeError | StopIteration | MyokitError

subsection \<open>Floating-point numbers\<close>

text \<open>
  A float of the source (a Python float or a numpy float64) is a finite number, one of
  the two infinities or not-a-number. Finite arithmetic is exact arithmetic on the reals:
  rounding, overflow to infinity and the sign of zero are left out of the model, the
  special values and their propagation are kept. A float literal of the source stands
  for the decimal number it is written as. Where the result of a function depends on how
  the operations round or overflow (which sample is nearest to a threshold, in
  \<open>APD90\<close>), the function takes the rounding as a parameter.
\<close>

datatype fl = Fin real | PInf | MInf | NaN

fun fl_isnan :: "fl \<Rightarrow> bool" where
  "fl_isnan NaN = True"
| "fl_isnan _ = False"

fun fl_isfinite :: "fl \<Rightarrow> bool" where
  "fl_isfinite (Fin _) = True"
| "fl_isfinite _ = False"

text \<open>The sign of a float that is not NaN: -1, 0 or 1.\<close>

fun fl_sgn :: "fl \<Rightarrow> int" where
  "fl_sgn (Fin a) = (if a < 0 then -1 else if a = 0 then 0 else 1)"
| "fl_sgn PInf = 1"
| "fl_sgn MInf = -1"
| "fl_sgn NaN = 0"

fun fl_neg :: "fl \<Rightarrow> fl" where
  "fl_neg (Fin a) = Fin (- a)"
| "fl_neg PInf = MInf"
| "fl_neg MInf = PInf"
| "fl_neg NaN = NaN"

fun fl_abs :: "fl \<Rightarrow> fl" where
  "fl_abs (Fin a) = Fin \<bar>a\<bar>"
| "fl_abs PInf = PInf"
| "fl_abs MInf = PInf"
| "fl_abs NaN = NaN"

fun fl_add :: "fl \<Rightarrow> fl \<Rightarrow> fl" where
  "fl_add NaN _ = NaN"
| "fl_add _ NaN = NaN"
| "fl_add (Fin a) (Fin b) = Fin (a + b)"
| "fl_add PInf MInf = NaN"
| "fl_add MInf PInf = NaN"
| "fl_add PInf _ = PInf"
| "fl_add _ PInf = PInf"
| "fl_add MInf _ = MInf"
| "fl_add _ MInf = MInf"

definition fl_sub :: "fl \<Rightarrow> fl \<Rightarrow> fl" where
  "fl_sub x y = fl_add x (fl_neg y)"

text \<open>The infinity of a given non-zero sign; a zero sign is an invalid operation.\<close>

definition fl_signed_inf :: "int \<Rightarrow> fl" where
  "fl_signed_inf s = (if s = 0 then NaN else if 0 < s then PInf else MInf)"

fun fl_mul :: "fl \<Rightarrow> fl \<Rightarrow> fl" where
  "fl_mul NaN _ = NaN"
| "fl_mul _ NaN = NaN"
| "fl_mul (Fin a) (Fin b) = Fin (a * b)"
| "fl_mul x y = fl_signed_inf (fl_sgn x * fl_sgn y)"

text \<open>
  Division of numpy scalars and arrays: a zero divisor gives an infinity or NaN (numpy
  warns and goes on), it does not raise.
\<close>

fun fl_div :: "fl \<Rightarrow> fl \<Rightarrow> fl" where
  "fl_div NaN _ = NaN"
| "fl_div _ NaN = NaN"
| "fl_div (Fin a) (Fin b) = (if b = 0 then fl_signed_inf (fl_sgn (Fin a)) else Fin (a / b))"
| "fl_div (Fin a) _ = Fin 0"
| "fl_div x (Fin b) = fl_signed_inf (fl_sgn x * (if b < 0 then -1 else 1))"
| "fl_div _ _ = NaN"

text \<open>Comparisons: every comparison with NaN is false.\<close>

fun fl_less :: "fl \<Rightarrow> fl \<Rightarrow> bool" where
  "fl_less NaN _ = False"
| "fl_less _ NaN = False"
| "fl_less (Fin a) (Fin b) = (a < b)"
| "fl_less MInf MInf = False"
| "fl_less MInf _ = True"
| "fl_less _ MInf = False"
| "fl_less PInf _ = False"
| "fl_less _ PInf = True"

fun fl_eq :: "fl \<Rightarrow> fl \<Rightarrow> bool" where
  "fl_eq NaN _ = False"
| "fl_eq _ NaN = False"
| "fl_eq x y = (x = y)"

subsection \<open>Conversions to integers\<close>

text \<open>Python's \<open>round(x)\<close> with one argument: to the nearest integer, a tie to the even one.\<close>

definition round_half_even :: "real \<Rightarrow> int" where
  "round_half_even r =
     (let f = \<lfloor>r\<rfloor>; d = r - of_int f
      in if d < 1 / 2 then f else if 1 / 2 < d then f + 1
         else if even f then f else f + 1)"

fun py_round :: "fl \<Rightarrow> error + int" where
  "py_round (Fin r) = Inr (round_half_even r)"
| "py_round NaN = Inl ValueError"
| "py_round _ = Inl OverflowError"

text \<open>Python's \<open>int(x)\<close>: truncation towards zero.\<close>

fun py_int :: "fl \<Rightarrow> error + int" where
  "py_int (Fin r) = Inr (if 0 \<le> r then \<lfloor>r\<rfloor> else \<lceil>r\<rceil>)"
| "py_int NaN = Inl ValueError"
| "py_int _ = Inl OverflowError"

subsection \<open>Sequences\<close>

text \<open>
  Indexing a list or an array: a negative index counts from the end, an index out of
  range raises IndexError.
\<close>

definition py_index :: "'a list \<Rightarrow> int \<Rightarrow> error + 'a" where
  "py_index xs i =
     (if 0 \<le> i \<and> i < int (length xs) then Inr (xs ! nat i)
      else if i < 0 \<and> - int (length xs) \<le> i then Inr (xs ! nat (int (length xs) + i))
      else Inl IndexError)"

text \<open>A slice bound: a negative bound counts from the end, and the bound is clamped.\<close>

definition py_bound :: "'a list \<Rightarrow> int \<Rightarrow> nat" where
  "py_bound xs i =
     (let n = int (length xs) in nat (if i < 0 then max (n + i) 0 else min i n))"

definition py_slice :: "'a list \<Rightarrow> int \<Rightarrow> int \<Rightarrow> 'a list" where
  "py_slice xs a b = take (py_bound xs b - py_bound xs a) (drop (py_bound xs a) xs)"

definition py_slice_from :: "'a list \<Rightarrow> int \<Rightarrow> 'a list" where
  "py_slice_from xs a = drop (py_bound xs a) xs"

text \<open>
  The builtins \<open>max\<close> and \<open>min\<close> on a sequence: they keep the first item and replace it
  by a later one that compares greater (smaller); an empty sequence raises ValueError.
\<close>

fun py_max_from :: "fl \<Rightarrow> fl list \<Rightarrow> fl" where
  "py_max_from m [] = m"
| "py_max_from m (x # xs) = py_max_from (if fl_less m x then x else m) xs"

fun py_min_from :: "fl \<Rightarrow> fl list \<Rightarrow> fl" where
  "py_min_from m [] = m"
| "py_min_from m (x # xs) = py_min_from (if fl_less x m then x else m) xs"

fun py_max :: "fl list \<Rightarrow> error + fl" where
  "py_max [] = Inl ValueError"
| "py_max (x # xs) = Inr (py_max_from x xs)"

fun py_min :: "fl list \<Rightarrow> error + fl" where
  "py_min [] = Inl ValueError"
| "py_min (x # xs) = Inr (py_min_from x xs)"

text \<open>
  \<open>np.max\<close>: NaN as soon as one element is NaN, the greatest element otherwise;
  ValueError on an empty array.
\<close>

fun np_max :: "fl list \<Rightarrow> error + fl" where
  "np_max [] = Inl ValueError"
| "np_max (x # xs) = (if list_ex fl_isnan (x # xs) then Inr NaN else Inr (py_max_from x xs))"

text \<open>
  \<open>argmin\<close> of an array: the index of the first NaN when there is one, the first index
  of the least element otherwise; ValueError on an empty array.
\<close>

fun first_index :: "('a \<Rightarrow> bool) \<Rightarrow> 'a list \<Rightarrow> nat" where
  "first_index P [] = 0"
| "first_index P (x # xs) = (if P x then 0 else Suc (first_index P xs))"

fun np_argmin :: "fl list \<Rightarrow> error + nat" where
  "np_argmin [] = Inl ValueError"
| "np_argmin (x # xs) =
     (if list_ex fl_isnan (x # xs) then Inr (first_index fl_isnan (x # xs))
      else Inr (first_index (\<lambda>y. y = py_min_from x xs) (x # xs)))"

text \<open>Looking a key up in a dict: a missing key raises KeyError.\<close>

definition dict_get :: "('k \<times> 'v) list \<Rightarrow> 'k \<Rightarrow> error + 'v" where
  "dict_get d k = (case map_of d k of None \<Rightarrow> Inl KeyError | Some v \<Rightarrow> Inr v)"

subsection \<open>numpy functions\<close>

text \<open>\<open>10.0 ** x\<close>, elementwise on an array.\<close>

fun fl_pow10 :: "fl \<Rightarrow> fl" where
  "fl_pow10 (Fin r) = Fin (10 powr r)"
| "fl_pow10 PInf = PInf"
| "fl_pow10 MInf = Fin 0"
| "fl_pow10 NaN = NaN"

text \<open>\<open>np.log10\<close>: minus infinity at zero, NaN below zero (numpy warns, it does not raise).\<close>

fun np_log10 :: "fl \<Rightarrow> fl" where
  "np_log10 (Fin r) = (if 0 < r then Fin (log 10 r) else if r = 0 then MInf else NaN)"
| "np_log10 PInf = PInf"
| "np_log10 MInf = NaN"
| "np_log10 NaN = NaN"

text \<open>
  \<open>np.power(x, y)\<close> on floats: 1 for a zero exponent or a base of 1, whatever the other
  argument; NaN for a negative base with an exponent that is not an integer; the limits
  at the infinities.
\<close>

definition np_power :: "fl \<Rightarrow> fl \<Rightarrow> fl" where
  "np_power x y =
     (if y = Fin 0 \<or> x = Fin 1 then Fin 1
      else if fl_isnan x \<or> fl_isnan y then NaN
      else case (x, y) of
        (Fin a, Fin b) \<Rightarrow>
          if 0 < a then Fin (a powr b)
          else if a = 0 then (if 0 < b then Fin 0 else PInf)
          else if b = of_int \<lfloor>b\<rfloor> then Fin (a powi \<lfloor>b\<rfloor>)
          else NaN
      | (Fin a, PInf) \<Rightarrow> if \<bar>a\<bar> < 1 then Fin 0 else if \<bar>a\<bar> = 1 then Fin 1 else PInf
      | (Fin a, _) \<Rightarrow> if \<bar>a\<bar> < 1 then PInf else if \<bar>a\<bar> = 1 then Fin 1 else Fin 0
      | (PInf, _) \<Rightarrow> if fl_less y (Fin 0) then Fin 0 else PInf
      | (_, Fin b) \<Rightarrow>
          if b < 0 then Fin 0
          else if b = of_int \<lfloor>b\<rfloor> \<and> odd \<lfloor>b\<rfloor> then MInf else PInf
      | (_, _) \<Rightarrow> if fl_less y (Fin 0) then Fin 0 else PInf)"

text \<open>
  \<open>np.linspace(start, stop, num)\<close>: \<open>num\<close> samples, the first \<open>num - 1\<close> of them
  \<open>start + i * step\<close> with \<open>step = (stop - start) / (num - 1)\<close>, the last one \<open>stop\<close>.
\<close>

definition np_linspace :: "fl \<Rightarrow> fl \<Rightarrow> nat \<Rightarrow> fl list" where
  "np_linspace start stop num =
     (if num = 0 then [] else if num = 1 then [start]
      else map (\<lambda>i. fl_add start
                  (fl_mul (Fin (real i)) (fl_div (fl_sub stop start) (Fin (real (num - 1))))))
             [0..<num - 1] @ [stop])"

section \<open>Parameter library (lib\_binding\_kinetics.py)\<close>

text \<open>
  \<open>BindingParameters\<close>: the list of drug compounds and, per drug, the dict of its
  binding parameters. The dicts are association lists in the order of the source.
\<close>

definition BindingParameters_drug_compounds :: "string list" where
  "BindingParameters_drug_compounds =
     [''dofetilide'', ''bepridil'', ''terfenadine'',
      ''cisapride'', ''verapamil'', ''ranolazine'',
      ''quinidine'', ''sotalol'', ''chlorpromazine'',
      ''ondansetron'', ''diltiazem'', ''mexiletine'',
      ''droperidol'']"

definition binding_parameters :: "(string \<times> (string \<times> fl) list) list" where
  "binding_parameters = [
    (''dofetilide'',
      [(''Kmax'', Fin (10 ^ 8)), (''Ku'', Fin (1.79 / 10 ^ 5)), (''EC50'', Fin (5.483 * 10 ^ 8)),
       (''N'', Fin 0.9999), (''Vhalf'', Fin (- 1.147)), (''Cmax'', Fin 2)]),
    (''bepridil'',
      [(''Kmax'', Fin (3.735 * 10 ^ 7)), (''Ku'', Fin (1.765 / 10 ^ 4)), (''EC50'', Fin (10 ^ 9)),
       (''N'', Fin 0.9365), (''Vhalf'', Fin (- 54.93)), (''Cmax'', Fin 33)]),
    (''terfenadine'',
      [(''Kmax'', Fin 9884), (''Ku'', Fin (8.18 / 10 ^ 5)), (''EC50'', Fin 41380),
       (''N'', Fin 0.65), (''Vhalf'', Fin (- 77.49)), (''Cmax'', Fin 4)]),
    (''cisapride'',
      [(''Kmax'', Fin 9.997), (''Ku'', Fin (4.161 / 10 ^ 4)), (''EC50'', Fin 42.06),
       (''N'', Fin 0.9728), (''Vhalf'', Fin (- 199.5)), (''Cmax'', Fin 2.6)]),
    (''cisapride_kmax_verapamil'',
      [(''Kmax'', Fin (4.646 * 10 ^ 4)), (''Ku'', Fin (4.161 / 10 ^ 4)), (''EC50'', Fin 42.06),
       (''N'', Fin 0.9728), (''Vhalf'', Fin (- 199.5)), (''Cmax'', Fin 2.6)]),
    (''cisapride_kmax_bepridil'',
      [(''Kmax'', Fin (3.735 * 10 ^ 7)), (''Ku'', Fin (4.161 / 10 ^ 4)), (''EC50'', Fin 42.06),
       (''N'', Fin 0.9728), (''Vhalf'', Fin (- 199.5)), (''Cmax'', Fin 2.6)]),
    (''cisapride_EC50_ranolazine'',
      [(''Kmax'', Fin 9.997), (''Ku'', Fin (4.161 / 10 ^ 4)), (''EC50'', Fin (1.472 * 10 ^ 5)),
       (''N'', Fin 0.9728), (''Vhalf'', Fin (- 199.5)), (''Cmax'', Fin 2.6)]),
    (''cisapride_EC50_verapamil'',
      [(''Kmax'', Fin 9.997), (''Ku'', Fin (4.161 / 10 ^ 4)), (''EC50'', Fin (9.184 * 10 ^ 6)),
       (''N'', Fin 0.9728), (''Vhalf'', Fin (- 199.5)), (''Cmax'', Fin 2.6)]),
    (''cisapride_kmax_EC50_verapamil'',
      [(''Kmax'', Fin (4.646 * 10 ^ 4)), (''Ku'', Fin (4.161 / 10 ^ 4)), (''EC50'', Fin (9.184 * 10 ^ 6)),
       (''N'', Fin 0.9728), (''Vhalf'', Fin (- 199.5)), (''Cmax'', Fin 2.6)]),
    (''verapamil'',
      [(''Kmax'', Fin (4.646 * 10 ^ 4)), (''Ku'', Fin (7.927 / 10 ^ 4)), (''EC50'', Fin (9.184 * 10 ^ 6)),
       (''N'', Fin 1.043), (''Vhalf'', Fin (- 100)), (''Cmax'', Fin 81)]),
    (''ranolazine'',
      [(''Kmax'', Fin 55.84), (''Ku'', Fin (1.929 / 10 ^ 2)), (''EC50'', Fin (1.472 * 10 ^ 5)),
       (''N'', Fin 0.95), (''Vhalf'', Fin (- 94.87)), (''Cmax'', Fin 1948.2)]),
    (''mexiletine'',
      [(''Kmax'', Fin 9.996), (''Ku'', Fin (9.967 / 10 ^ 2)), (''EC50'', Fin (2.308 * 10 ^ 6)),
       (''N'', Fin 1.304), (''Vhalf'', Fin (- 86.26)), (''Cmax'', Fin 4129)]),
    (''quinidine'',
      [(''Kmax'', Fin 5770), (''Ku'', Fin (1 / 10 ^ 2)), (''EC50'', Fin (10 ^ 6)),
       (''N'', Fin 0.8311), (''Vhalf'', Fin (- 64.87)), (''Cmax'', Fin 3237)]),
    (''sotalol'',
      [(''Kmax'', Fin 2403), (''Ku'', Fin (1.985 / 10 ^ 2)), (''EC50'', Fin (9.619 * 10 ^ 6)),
       (''N'', Fin 0.7516), (''Vhalf'', Fin (- 55)), (''Cmax'', Fin 14690)]),
    (''chlorpromazine'',
      [(''Kmax'', Fin 206000), (''Ku'', Fin (3.866 / 10 ^ 2)), (''EC50'', Fin (5.677 * 10 ^ 7)),
       (''N'', Fin 0.8871), (''Vhalf'', Fin (- 14.57)), (''Cmax'', Fin 38)]),
    (''ondansetron'',
      [(''Kmax'', Fin 33540), (''Ku'', Fin (2.325 / 10 ^ 2)), (''EC50'', Fin (9.95 * 10 ^ 6)),
       (''N'', Fin 0.8874), (''Vhalf'', Fin (- 82.11)), (''Cmax'', Fin 139)]),
    (''diltiazem'',
      [(''Kmax'', Fin 251), (''Ku'', Fin (2.816 / 10 ^ 1)), (''EC50'', Fin (10 ^ 6)),
       (''N'', Fin 0.9485), (''Vhalf'', Fin (- 90.89)), (''Cmax'', Fin 122)]),
    (''droperidol'',
      [(''Kmax'', Fin 14.21), (''Ku'', Fin (1.256 / 10 ^ 3)), (''EC50'', Fin 116.5),
       (''N'', Fin 0.578), (''Vhalf'', Fin (- 78.68)), (''Cmax'', Fin 6.33)]),
    (''pimozide'',
      [(''Kmax'', Fin 10.07), (''Ku'', Fin (4.576 / 10 ^ 5)), (''EC50'', Fin 5.601),
       (''N'', Fin 0.8714), (''Vhalf'', Fin (- 78.68)), (''Cmax'', Fin 0.431)])]"

text \<open>\<open>DrugConcentrations\<close>: the same list of compounds and the default concentration grids.\<close>

definition drug_compounds :: "string list" where
  "drug_compounds =
     [''dofetilide'', ''bepridil'', ''terfenadine'',
      ''cisapride'', ''verapamil'', ''ranolazine'',
      ''quinidine'', ''sotalol'', ''chlorpromazine'',
      ''ondansetron'', ''diltiazem'', ''mexiletine'',
      ''droperidol'']"

definition drug_concentrations :: "(string \<times> (string \<times> fl list) list) list" where
  "drug_concentrations = [
    (''dofetilide'',
      [(''coarse'', [Fin 0, Fin 0.1, Fin 1, Fin 10, Fin 30, Fin 100, Fin 300, Fin 500, Fin 1000]),
       (''fine'', map fl_pow10 (np_linspace (Fin (- 1)) (Fin 2.5) 20)),
       (''lit_default'', [Fin 1, Fin 3, Fin 10, Fin 30])]),
    (''verapamil'',
      [(''coarse'', [Fin 0, Fin 0.1, Fin 1, Fin 30, Fin 300, Fin 1000, Fin 10000, Fin (10 ^ 5)]),
       (''fine'', map fl_pow10 (np_linspace (Fin (- 1)) (Fin 5) 20)),
       (''lit_default'', [Fin 30, Fin 100, Fin 300, Fin 1000])]),
    (''bepridil'',
      [(''coarse'', [Fin 0, Fin 0.1, Fin 1, Fin 30, Fin 100, Fin 300, Fin 1000, Fin 10000]),
       (''fine'', map fl_pow10 (np_linspace (Fin (- 1)) (Fin 5) 20)),
       (''lit_default'', [Fin 10, Fin 30, Fin 100, Fin 300])]),
    (''terfenadine'',
      [(''coarse'', [Fin 0, Fin 0.1, Fin 1, Fin 10, Fin 30, Fin 100, Fin 300, Fin 500, Fin 1000, Fin 10000]),
       (''fine'', map fl_pow10 (np_linspace (Fin (- 1)) (Fin 5) 20)),
       (''lit_default'', [Fin 3, Fin 10, Fin 30, Fin 100])]),
    (''cisapride'',
      [(''coarse'', [Fin 0, Fin 0.1, Fin 1, Fin 10, Fin 30, Fin 100, Fin 300, Fin 500, Fin 1000, Fin 3000]),
       (''fine'', map fl_pow10 (np_linspace (Fin (- 1)) (Fin 3) 20)),
       (''lit_default'', [Fin 1, Fin 10, Fin 100, Fin 300])]),
    (''ranolazine'',
      [(''coarse'', [Fin 0, Fin 1, Fin 30, Fin 300, Fin 500, Fin 1000, Fin 10000, Fin (10 ^ 5), Fin (10 ^ 6)]),
       (''fine'', map fl_pow10 (np_linspace (Fin 1) (Fin 5.5) 20)),
       (''lit_default'', [Fin 1000, Fin (10 ^ 4), Fin (3 * 10 ^ 4), Fin (10 ^ 5)])]),
    (''quinidine'',
      [(''coarse'', [Fin 0, Fin 1, Fin 30, Fin 300, Fin 500, Fin 1000, Fin 3000, Fin 10000, Fin (10 ^ 5)]),
       (''fine'', map fl_pow10 (np_linspace (Fin (- 1)) (Fin 5) 20)),
       (''lit_default'', [Fin 100, Fin 300, Fin 1000, Fin 10000])]),
    (''sotalol'',
      [(''coarse'', [Fin 0, Fin 1, Fin 30, Fin 100, Fin 300, Fin 1000, Fin 10000, Fin (3 * 10 ^ 4), Fin (10 ^ 5), Fin (3 * 10 ^ 5), Fin (10 ^ 6), Fin (10 ^ 7)]),
       (''fine'', map fl_pow10 (np_linspace (Fin (- 1)) (Fin 7) 20)),
       (''lit_default'', [Fin (10 ^ 4), Fin (3 * 10 ^ 4), Fin (10 ^ 5), Fin (3 * 10 ^ 5)])]),
    (''chlorpromazine'',
      [(''coarse'', [Fin 0, Fin 1, Fin 30, Fin 300, Fin 500, Fin 1000, Fin 3000, Fin 10000, Fin (10 ^ 5)]),
       (''fine'', map fl_pow10 (np_linspace (Fin (- 1)) (Fin 4.5) 20)),
       (''lit_default'', [Fin 100, Fin 300, Fin 1000, Fin 3000])]),
    (''ondansetron'',
      [(''coarse'', [Fin 0, Fin 1, Fin 30, Fin 300, Fin 500, Fin 1000, Fin 3000, Fin 10000, Fin (10 ^ 5), Fin (3 * 10 ^ 5)]),
       (''fine'', map fl_pow10 (np_linspace (Fin (- 1)) (Fin 5.5) 20)),
       (''lit_default'', [Fin 300, Fin 1000, Fin 3000, Fin (10 ^ 4)])]),
    (''diltiazem'',
      [(''coarse'', [Fin 0, Fin 1, Fin 30, Fin 100, Fin 300, Fin 1000, Fin 3000, Fin 10000, Fin (3 * 10 ^ 4), Fin (10 ^ 5), Fin (10 ^ 6), Fin (10 ^ 7)]),
       (''fine'', map fl_pow10 (np_linspace (Fin (- 1)) (Fin 6) 20)),
       (''lit_default'', [Fin 3000, Fin (10 ^ 4), Fin (3 * 10 ^ 4), Fin (10 ^ 5)])]),
    (''mexiletine'',
      [(''coarse'', [Fin 0, Fin 1, Fin 30, Fin 100, Fin 300, Fin 1000, Fin 10000, Fin (3 * 10 ^ 4), Fin (10 ^ 5), Fin (10 ^ 6), Fin (10 ^ 7)]),
       (''fine'', map fl_pow10 (np_linspace (Fin (- 1)) (Fin 7) 20)),
       (''lit_default'', [Fin (10 ^ 4), Fin (3 * 10 ^ 4), Fin (10 ^ 5), Fin (3 * 10 ^ 5)])])]"

section \<open>Signal analysis (binding\_kinetics.py)\<close>

text \<open>Sequencing of computations that can raise: the first error ends the computation.\<close>

fun ebind :: "error + 'a \<Rightarrow> ('a \<Rightarrow> error + 'b) \<Rightarrow> error + 'b" where
  "ebind (Inl e) f = Inl e"
| "ebind (Inr x) f = f x"

subsection \<open>The signal log\<close>

text \<open>
  A log of the simulation service is a dict from keys, which are strings, to numeric
  series (arrays, after \<open>npview\<close>). \<open>log[name]\<close> reads the key \<open>name\<close> and
  \<open>log[name, i]\<close> the key \<open>str(i) + '.' + name\<close>, the keys that folding a log makes.
  \<open>keys_like(name)\<close> lists every key of the log that ends with \<open>'.' + name\<close>,
  whatever stands before the dot.
\<close>

type_synonym DataLog = "(string \<times> fl list) list"

text \<open>\<open>str(i)\<close> for a natural number: its decimal digits.\<close>

fun str_nat :: "nat \<Rightarrow> string" where
  "str_nat n =
     (if n < 10 then [''0123456789'' ! n]
      else str_nat (n div 10) @ [''0123456789'' ! (n mod 10)])"

declare str_nat.simps [simp del]

definition pulse_key :: "string \<Rightarrow> nat \<Rightarrow> string" where
  "pulse_key name i = str_nat i @ ''.'' @ name"

definition ends_with :: "string \<Rightarrow> string \<Rightarrow> bool" where
  "ends_with key tail \<longleftrightarrow>
     length tail \<le> length key \<and> drop (length key - length tail) key = tail"

definition keys_like :: "DataLog \<Rightarrow> string \<Rightarrow> string list" where
  "keys_like signal_log name =
     remdups (filter (\<lambda>key. ends_with key (''.'' @ name)) (map fst signal_log))"

subsection \<open>extract\_peak\<close>

text \<open>The loop \<open>for i in range(pulses): peaks.append(np.max(signal_log[current_name, i]))\<close>.\<close>

fun pulse_peaks :: "DataLog \<Rightarrow> string \<Rightarrow> nat list \<Rightarrow> error + fl list" where
  "pulse_peaks signal_log current_name [] = Inr []"
| "pulse_peaks signal_log current_name (i # is) =
     ebind (dict_get signal_log (pulse_key current_name i)) (\<lambda>series.
     ebind (np_max series) (\<lambda>m.
     ebind (pulse_peaks signal_log current_name is) (\<lambda>ms. Inr (m # ms))))"

definition extract_peak :: "DataLog \<Rightarrow> string \<Rightarrow> error + (fl list \<times> fl)" where
  "extract_peak signal_log current_name =
     (let pulses = length (keys_like signal_log current_name) in
      ebind (if pulses = 0
             then ebind (dict_get signal_log current_name) (\<lambda>series.
                  ebind (np_max series) (\<lambda>m. Inr [m]))
             else Inr []) (\<lambda>whole.
      ebind (pulse_peaks signal_log current_name [0..<pulses]) (\<lambda>ms.
      let peaks = whole @ ms in
      ebind (py_index peaks 0) (\<lambda>peak_first.
      ebind (py_index peaks (- 1)) (\<lambda>peak_last.
      let peak_reduction =
            (if fl_eq peak_first (Fin 0) then Fin 0
             else fl_div (fl_sub peak_first peak_last) peak_first)
      in Inr (peaks, peak_reduction))))))"

subsection \<open>APD90 with a fixed offset\<close>

text \<open>
  Which sample is nearest to the threshold depends on how each operation rounds its
  result: two distances that differ as real numbers can be equal as doubles, and a
  difference of two finite samples can overflow. The rounding of a finite result is the
  parameter \<open>rnd\<close> of the function, which maps the exact result to the float that the
  operation returns. Infinities and NaN are not rounded, the literal \<open>0.1\<close> is, and
  comparisons and \<open>abs\<close> are exact.
\<close>

definition rounded :: "(real \<Rightarrow> fl) \<Rightarrow> fl \<Rightarrow> fl" where
  "rounded rnd x = (case x of Fin r \<Rightarrow> rnd r | _ \<Rightarrow> x)"

text \<open>
  The rounding of doubles: to the nearest number with a significand of 53 bits, a tie to
  the even one. Below \<open>2 ^ - 1022\<close> the numbers are \<open>2 ^ - 1074\<close> apart (the subnormal
  numbers), and a result that rounds to \<open>2 ^ 1024\<close> or more overflows to the infinity of
  its sign.
\<close>

definition round_double :: "real \<Rightarrow> fl" where
  "round_double r =
     (if r = 0 then Fin 0
      else let e = max \<lfloor>log 2 \<bar>r\<bar>\<rfloor> (- 1022);
               q = of_int (round_half_even (r * 2 powi (52 - e))) * 2 powi (e - 52)
           in if 2 powi 1024 \<le> \<bar>q\<bar> then (if 0 < r then PInf else MInf) else Fin q)"

text \<open>Exact arithmetic: no rounding.\<close>

definition round_exact :: "real \<Rightarrow> fl" where
  "round_exact r = Fin r"

definition APD90 :: "(real \<Rightarrow> fl) \<Rightarrow> fl list \<Rightarrow> fl \<Rightarrow> fl \<Rightarrow> error + fl" where
  "APD90 rnd signal offset timestep =
     ebind (py_max signal) (\<lambda>signal_max.
     ebind (py_min signal) (\<lambda>signal_min.
     let APA = rounded rnd (fl_sub signal_max signal_min);
         APD90_v = rounded rnd (fl_add signal_min (rounded rnd (fl_mul (rnd 0.1) APA)))
     in ebind (np_argmin (map (\<lambda>v. fl_abs (rounded rnd (fl_sub v APD90_v))) signal)) (\<lambda>index.
        let apd = rounded rnd (fl_sub (rounded rnd (fl_mul (Fin (real index)) timestep)) offset)
        in Inr (if fl_less apd (Fin 1)
                then rounded rnd (fl_mul (Fin (real (length signal))) timestep)
                else apd))))"

subsection \<open>APD90 by interpolation, per pulse\<close>

text \<open>
  The inner loop \<open>for ind, v in enumerate(...): if v < APD90_v: ... break\<close>: the first
  position of the scanned samples whose value is below the threshold, with the value.
\<close>

fun first_below :: "fl \<Rightarrow> fl list \<Rightarrow> nat \<Rightarrow> (nat \<times> fl) option" where
  "first_below APD90_v [] ind = None"
| "first_below APD90_v (v # vs) ind =
     (if fl_less v APD90_v then Some (ind, v) else first_below APD90_v vs (Suc ind))"

text \<open>
  The first statement of \<open>APD90_update\<close>: the sampling step of the time signal. The
  signals are arrays, so a division by zero gives an infinity or NaN, which \<open>round\<close>
  and \<open>int\<close> then reject.
\<close>

definition APD90_timestep :: "fl list \<Rightarrow> error + fl" where
  "APD90_timestep time_signal =
     ebind (py_max time_signal) (\<lambda>time_max.
     ebind (py_min time_signal) (\<lambda>time_min.
     Inr (fl_div (fl_sub time_max time_min) (Fin (real (length time_signal))))))"

text \<open>
  The body of the loop over the pulses, for the pulse \<open>i\<close>, in two parts. The first part
  cuts the pulse out of the voltage signal and computes its threshold, the index where
  the scan starts (\<open>offset_index + min_APD\<close>) and the start time.
\<close>

definition APD90_window ::
  "fl list \<Rightarrow> fl list \<Rightarrow> fl \<Rightarrow> fl \<Rightarrow> fl \<Rightarrow> nat \<Rightarrow> error + (fl list \<times> fl \<times> int \<times> fl)" where
  "APD90_window time_signal Vm_signal offset protocol_duration timestep i =
     ebind (py_round (fl_div (fl_mul (Fin (real i)) protocol_duration) timestep)) (\<lambda>lo.
     ebind (py_round (fl_div (fl_mul (Fin (real (i + 1))) (fl_add protocol_duration offset))
                        timestep)) (\<lambda>hi.
     let AP_Vm = py_slice Vm_signal lo hi in
     ebind (py_max AP_Vm) (\<lambda>AP_max.
     ebind (py_min AP_Vm) (\<lambda>AP_min.
     let APamp = fl_sub AP_max AP_min;
         APD90_v = fl_add AP_min (fl_mul (Fin 0.1) APamp)
     in
     ebind (py_int (fl_div (Fin 5) timestep)) (\<lambda>min_APD.
     ebind (py_int (fl_div offset timestep)) (\<lambda>offset_index.
     ebind (py_index time_signal offset_index) (\<lambda>start_time.
     Inr (AP_Vm, APD90_v, offset_index + min_APD, start_time))))))))"

text \<open>
  The second part scans the samples from that index on and interpolates at the first
  one below the threshold; \<open>ind - 1\<close> is an index of the sliced arrays.
\<close>

definition APD90_crossing :: "fl list \<Rightarrow> fl list \<times> fl \<times> int \<times> fl \<Rightarrow> error + fl" where
  "APD90_crossing time_signal w =
     (case w of (AP_Vm, APD90_v, scan_from, start_time) \<Rightarrow>
      ebind (case first_below APD90_v (py_slice_from AP_Vm scan_from) 0 of
               None \<Rightarrow> Inr None
             | Some (ind, v) \<Rightarrow>
                 ebind (py_index (py_slice_from time_signal scan_from) (int ind - 1)) (\<lambda>t_prev.
                 ebind (py_index (py_slice_from AP_Vm scan_from) (int ind - 1)) (\<lambda>v_prev.
                 ebind (py_index (py_slice_from time_signal scan_from) (int ind)) (\<lambda>t_current.
                 Inr (Some (fl_add t_prev
                              (fl_mul (fl_div (fl_sub APD90_v v_prev) (fl_sub v v_prev))
                                 (fl_sub t_current t_prev)))))))) (\<lambda>end_time.
      Inr (case end_time of Some t \<Rightarrow> fl_sub t start_time | None \<Rightarrow> NaN)))"

definition APD90_pulse :: "fl list \<Rightarrow> fl list \<Rightarrow> fl \<Rightarrow> fl \<Rightarrow> fl \<Rightarrow> nat \<Rightarrow> error + fl" where
  "APD90_pulse time_signal Vm_signal offset protocol_duration timestep i =
     ebind (APD90_window time_signal Vm_signal offset protocol_duration timestep i)
       (APD90_crossing time_signal)"

fun APD90_loop :: "fl list \<Rightarrow> fl list \<Rightarrow> fl \<Rightarrow> fl \<Rightarrow> fl \<Rightarrow> nat list \<Rightarrow> error + fl list" where
  "APD90_loop time_signal Vm_signal offset protocol_duration timestep [] = Inr []"
| "APD90_loop time_signal Vm_signal offset protocol_duration timestep (i # is) =
     ebind (APD90_pulse time_signal Vm_signal offset protocol_duration timestep i) (\<lambda>APD90_value.
     ebind (APD90_loop time_signal Vm_signal offset protocol_duration timestep is) (\<lambda>rest.
     Inr (APD90_value # rest)))"

definition APD90_update :: "fl list \<Rightarrow> fl list \<Rightarrow> fl \<Rightarrow> fl \<Rightarrow> error + fl list" where
  "APD90_update time_signal Vm_signal offset protocol_duration =
     ebind (APD90_timestep time_signal) (\<lambda>timestep.
     let pulse_num = round_half_even (real (length Vm_signal) / real (length time_signal))
     in APD90_loop time_signal Vm_signal offset protocol_duration timestep
          [0..<nat pulse_num])"

section \<open>The simulation service\<close>

text \<open>
  The ODE solver is not part of the repository: the driver reaches it through the calls
  \<open>Simulation(model, protocol)\<close>, \<open>reset\<close>, \<open>set_tolerance\<close>, \<open>set_state\<close>,
  \<open>set_constant\<close>, \<open>pre\<close> and \<open>run\<close>. The model below keeps what these calls read and
  write. A model is its table of constants and its list of state variables with their
  initial values, both keyed by qualified names such as \<open>ikr.D\<close>; \<open>model_source\<close> stands
  for the rest of the model description.
\<close>

record Model =
  model_source :: string
  model_components :: "string list"
  model_constants :: "(string \<times> fl) list"
  model_states :: "(string \<times> fl) list"

record Protocol =
  protocol_events :: "(fl \<times> fl \<times> fl \<times> fl) list"
  characteristic_time :: fl

record Simulation =
  sim_model :: Model
  sim_protocol :: "Protocol option"
  sim_constants :: "(string \<times> fl) list"
  sim_tolerance :: "fl \<times> fl"
  sim_default_state :: "fl list"
  sim_state :: "fl list"
  sim_time :: fl

text \<open>
  The solver itself is a parameter: \<open>advance\<close> integrates a simulation over a duration
  without logging and gives the final state, \<open>record_run\<close> does so with the variables to
  log (\<open>None\<close> for the default) and the log interval, and gives the final state and the
  log. \<open>fold_log\<close> is the reshaping of a log into pulses of a given period.
\<close>

record Engine =
  advance :: "Simulation \<Rightarrow> fl \<Rightarrow> error + fl list"
  record_run :: "Simulation \<Rightarrow> fl \<Rightarrow> string list option \<Rightarrow> fl \<Rightarrow> error + (fl list \<times> DataLog)"
  fold_log :: "DataLog \<Rightarrow> fl \<Rightarrow> error + DataLog"

text \<open>Assigning to a key that a dict has: the entry is replaced in place.\<close>

definition dict_update :: "('k \<times> 'v) list \<Rightarrow> 'k \<Rightarrow> 'v \<Rightarrow> ('k \<times> 'v) list" where
  "dict_update d k v = map (\<lambda>kv. if fst kv = k then (k, v) else kv) d"

text \<open>\<open>component.var(name)\<close>: the qualified name of a variable of the component.\<close>

definition qname :: "string \<Rightarrow> string \<Rightarrow> string" where
  "qname component name = component @ ''.'' @ name"

definition component_var :: "Model \<Rightarrow> string \<Rightarrow> string \<Rightarrow> error + string" where
  "component_var m component name =
     (if qname component name \<in> set (map fst (model_constants m) @ map fst (model_states m))
      then Inr (qname component name) else Inl KeyError)"

text \<open>\<open>variable.eval()\<close>, for the constants the driver evaluates.\<close>

definition variable_eval :: "Model \<Rightarrow> string \<Rightarrow> error + fl" where
  "variable_eval m v = dict_get (model_constants m) v"

text \<open>\<open>model.get(name).set_state_value(value)\<close>: it changes the model.\<close>

definition set_state_value :: "Model \<Rightarrow> string \<Rightarrow> fl \<Rightarrow> error + Model" where
  "set_state_value m v x =
     (if v \<in> set (map fst (model_states m))
      then Inr (m\<lparr>model_states := dict_update (model_states m) v x\<rparr>)
      else if v \<in> set (map fst (model_constants m)) then Inl MyokitError
      else Inl KeyError)"

text \<open>
  \<open>myokit.Simulation(model, protocol)\<close>: a new simulation on a copy of the model, with
  the model's constants, its initial state and the default tolerances.
\<close>

definition new_Simulation :: "Model \<Rightarrow> Protocol option \<Rightarrow> Simulation" where
  "new_Simulation m p =
     \<lparr>sim_model = m, sim_protocol = p, sim_constants = model_constants m,
      sim_tolerance = (Fin (1 / 10 ^ 6), Fin (1 / 10 ^ 4)),
      sim_default_state = map snd (model_states m), sim_state = map snd (model_states m),
      sim_time = Fin 0\<rparr>"

definition sim_reset :: "Simulation \<Rightarrow> Simulation" where
  "sim_reset s = s\<lparr>sim_state := sim_default_state s, sim_time := Fin 0\<rparr>"

definition set_tolerance :: "Simulation \<Rightarrow> fl \<Rightarrow> fl \<Rightarrow> Simulation" where
  "set_tolerance s abs_tol rel_tol = s\<lparr>sim_tolerance := (abs_tol, rel_tol)\<rparr>"

text \<open>\<open>set_constant\<close> changes a constant of the simulation, not of the model.\<close>

definition set_constant :: "Simulation \<Rightarrow> string \<Rightarrow> fl \<Rightarrow> error + Simulation" where
  "set_constant s v x =
     (if v \<in> set (map fst (sim_constants s))
      then Inr (s\<lparr>sim_constants := dict_update (sim_constants s) v x\<rparr>)
      else Inl MyokitError)"

text \<open>
  \<open>set_state\<close> with a log: the state takes, for each state variable in order, the last
  value of the variable's series; a variable that the log does not have is a ValueError.
\<close>

fun last_values :: "DataLog \<Rightarrow> string list \<Rightarrow> error + fl list" where
  "last_values lg [] = Inr []"
| "last_values lg (v # vs) =
     ebind (case map_of lg v of None \<Rightarrow> Inl ValueError | Some series \<Rightarrow> Inr series)
       (\<lambda>series.
     ebind (py_index series (- 1)) (\<lambda>x.
     ebind (last_values lg vs) (\<lambda>xs. Inr (x # xs))))"

definition sim_set_state :: "Simulation \<Rightarrow> DataLog \<Rightarrow> error + Simulation" where
  "sim_set_state s lg =
     ebind (last_values lg (map fst (model_states (sim_model s)))) (\<lambda>xs.
     Inr (s\<lparr>sim_state := xs\<rparr>))"

text \<open>\<open>pre\<close> advances without a log and makes the state reached the default state.\<close>

definition sim_pre :: "Engine \<Rightarrow> Simulation \<Rightarrow> fl \<Rightarrow> error + Simulation" where
  "sim_pre E s duration =
     ebind (advance E s duration) (\<lambda>xs.
     Inr (s\<lparr>sim_default_state := xs, sim_state := xs\<rparr>))"

definition sim_run ::
  "Engine \<Rightarrow> Simulation \<Rightarrow> fl \<Rightarrow> string list option \<Rightarrow> fl \<Rightarrow> error + (Simulation \<times> DataLog)" where
  "sim_run E s duration log_var log_interval =
     ebind (record_run E s duration log_var log_interval) (\<lambda>r.
     Inr (s\<lparr>sim_state := fst r, sim_time := fl_add (sim_time s) duration\<rparr>, snd r))"

section \<open>The simulation driver (binding\_kinetics.py)\<close>

record BindingKinetics =
  model :: Model
  protocol :: "Protocol option"
  sim :: Simulation
  initial_state :: "fl list"
  current_head :: string
  original_constants :: "(string \<times> fl) list"

text \<open>The component of a variable: its qualified name up to the first dot.\<close>

definition parent :: "string \<Rightarrow> string" where
  "parent v = takeWhile (\<lambda>c. c \<noteq> CHR ''.'') v"

text \<open>\<open>self.model.get(self.current_head.var(name)).eval()\<close>.\<close>

definition original_value :: "Model \<Rightarrow> string \<Rightarrow> string \<Rightarrow> error + fl" where
  "original_value m head name = ebind (component_var m head name) (variable_eval m)"

definition BindingKinetics_init ::
  "Model \<Rightarrow> Protocol option \<Rightarrow> string option \<Rightarrow> error + BindingKinetics" where
  "BindingKinetics_init m p head_name =
     (let s = new_Simulation m p in
      ebind (case head_name of
               None \<Rightarrow> (case model_states m of
                          [] \<Rightarrow> Inl StopIteration
                        | st # _ \<Rightarrow> Inr (parent (fst st)))
             | Some h \<Rightarrow> if h \<in> set (model_components m) then Inr h else Inl KeyError) (\<lambda>head.
      ebind (original_value m head ''Vhalf'') (\<lambda>Vhalf.
      ebind (original_value m head ''Kmax'') (\<lambda>Kmax.
      ebind (original_value m head ''Ku'') (\<lambda>Ku.
      ebind (original_value m head ''n'') (\<lambda>n.
      ebind (original_value m head ''halfmax'') (\<lambda>EC50.
      ebind (original_value m head ''Kt'') (\<lambda>Kt.
      ebind (original_value m head ''gKr'') (\<lambda>gKr.
      Inr \<lparr>model = m, protocol = p, sim = s, initial_state = sim_state s,
           current_head = head,
           original_constants =
             [(''Vhalf'', Vhalf), (''Kmax'', Kmax), (''Ku'', Ku), (''n'', n),
              (''EC50'', EC50), (''Kt'', Kt), (''gKr'', gKr)]\<rparr>)))))))))"

text \<open>\<open>self.protocol.characteristic_time()\<close>; the protocol can be \<open>None\<close>.\<close>

definition protocol_time :: "Protocol option \<Rightarrow> error + fl" where
  "protocol_time p = (case p of None \<Rightarrow> Inl AttributeError | Some q \<Rightarrow> Inr (characteristic_time q))"

text \<open>\<open>param_lib.binding_parameters[drug][name]\<close>.\<close>

definition binding_parameter :: "string \<Rightarrow> string \<Rightarrow> error + fl" where
  "binding_parameter drug name =
     ebind (dict_get binding_parameters drug) (\<lambda>parameters. dict_get parameters name)"

text \<open>
  \<open>self.sim.set_constant(self.current_head.var(name), value)\<close>: the variable is looked
  up first, then the value is evaluated, then the constant is set.
\<close>

definition head_set_constant ::
  "BindingKinetics \<Rightarrow> Simulation \<Rightarrow> string \<Rightarrow> error + fl \<Rightarrow> error + Simulation" where
  "head_set_constant self s name val =
     ebind (component_var (model self) (current_head self) name) (\<lambda>v.
     ebind val (\<lambda>x. set_constant s v x))"

text \<open>\<open>set_state['ikr.D'][-1] = drug_conc\<close>, on the log given as the starting state.\<close>

definition log_set_last :: "DataLog \<Rightarrow> string \<Rightarrow> fl \<Rightarrow> error + DataLog" where
  "log_set_last lg name x =
     ebind (dict_get lg name) (\<lambda>series.
     if series = [] then Inl IndexError
     else Inr (dict_update lg name (butlast series @ [x])))"

text \<open>
  The end of the three simulation methods: pre-pace \<open>repeats - save_signal\<close> periods,
  record \<open>save_signal\<close> periods, and fold the log when more than one period is recorded.
\<close>

definition pace_and_record ::
  "Engine \<Rightarrow> Simulation \<Rightarrow> fl \<Rightarrow> int \<Rightarrow> int \<Rightarrow> string list option \<Rightarrow> fl \<Rightarrow>
     error + (Simulation \<times> DataLog)" where
  "pace_and_record E s t_max repeats save_signal log_var timestep =
     ebind (sim_pre E s (fl_mul t_max (Fin (of_int (repeats - save_signal))))) (\<lambda>s1.
     ebind (sim_run E s1 (fl_mul t_max (Fin (of_int save_signal))) log_var timestep) (\<lambda>r.
     ebind (if 1 < save_signal then fold_log E (snd r) t_max else Inr (snd r)) (\<lambda>d2.
     Inr (fst r, d2))))"

subsection \<open>drug\_simulation\<close>

text \<open>The method up to the last \<open>set_constant\<close>: the instance with its new simulation, and \<open>t_max\<close>.\<close>

definition drug_setup ::
  "BindingKinetics \<Rightarrow> string \<Rightarrow> fl \<Rightarrow> DataLog option \<Rightarrow> fl \<Rightarrow> fl \<Rightarrow> fl option \<Rightarrow>
     error + (BindingKinetics \<times> fl)" where
  "drug_setup self drug drug_conc set_state abs_tol rel_tol protocol_period =
     ebind (binding_parameter drug ''Vhalf'') (\<lambda>Vhalf.
     ebind (binding_parameter drug ''Kmax'') (\<lambda>Kmax.
     ebind (binding_parameter drug ''Ku'') (\<lambda>Ku.
     ebind (binding_parameter drug ''N'') (\<lambda>N.
     ebind (binding_parameter drug ''EC50'') (\<lambda>EC50.
     ebind (case protocol_period of
              None \<Rightarrow> protocol_time (protocol self)
            | Some period \<Rightarrow> Inr period) (\<lambda>t_max.
     ebind (set_state_value (model self) ''ikr.D'' drug_conc) (\<lambda>m1.
     let self1 = self\<lparr>model := m1\<rparr>;
         fresh = set_tolerance (sim_reset (new_Simulation m1 (protocol self))) abs_tol rel_tol
     in
     ebind (case set_state of
              None \<Rightarrow> Inr fresh
            | Some lg \<Rightarrow>
                if lg = [] then Inr fresh
                else ebind (log_set_last lg ''ikr.D'' drug_conc) (sim_set_state fresh)) (\<lambda>s0.
     ebind (head_set_constant self1 s0 ''Vhalf'' (Inr Vhalf)) (\<lambda>s1.
     ebind (head_set_constant self1 s1 ''Kmax'' (Inr Kmax)) (\<lambda>s2.
     ebind (head_set_constant self1 s2 ''Ku'' (Inr Ku)) (\<lambda>s3.
     ebind (head_set_constant self1 s3 ''n'' (Inr N)) (\<lambda>s4.
     ebind (head_set_constant self1 s4 ''halfmax'' (Inr EC50)) (\<lambda>s5.
     ebind (head_set_constant self1 s5 ''Kt'' (Inr (Fin (3.5 / 10 ^ 5)))) (\<lambda>s6.
     ebind (head_set_constant self1 s6 ''gKr'' (dict_get (original_constants self) ''gKr'')) (\<lambda>s7.
     Inr (self1\<lparr>sim := s7\<rparr>, t_max))))))))))))))))"

definition drug_simulation ::
  "Engine \<Rightarrow> BindingKinetics \<Rightarrow> string \<Rightarrow> fl \<Rightarrow> int \<Rightarrow> fl \<Rightarrow> int \<Rightarrow> string list option \<Rightarrow>
     DataLog option \<Rightarrow> fl \<Rightarrow> fl \<Rightarrow> fl option \<Rightarrow> error + (BindingKinetics \<times> DataLog)" where
  "drug_simulation E self drug drug_conc repeats timestep save_signal log_var set_state
       abs_tol rel_tol protocol_period =
     ebind (drug_setup self drug drug_conc set_state abs_tol rel_tol protocol_period) (\<lambda>c.
     ebind (pace_and_record E (sim (fst c)) (snd c) repeats save_signal log_var timestep) (\<lambda>r.
     Inr ((fst c)\<lparr>sim := fst r\<rparr>, snd r)))"

subsection \<open>custom\_simulation\<close>

text \<open>\<open>param_values[name].values[0]\<close>: the first value of a column of the table.\<close>

definition first_value :: "(string \<times> fl list) list \<Rightarrow> string \<Rightarrow> error + fl" where
  "first_value param_values name =
     ebind (dict_get param_values name) (\<lambda>column. py_index column 0)"

definition custom_setup ::
  "BindingKinetics \<Rightarrow> (string \<times> fl list) list \<Rightarrow> fl \<Rightarrow> fl \<Rightarrow> fl \<Rightarrow>
     error + (BindingKinetics \<times> fl)" where
  "custom_setup self param_values drug_conc abs_tol rel_tol =
     ebind (protocol_time (protocol self)) (\<lambda>t_max.
     ebind (set_state_value (model self) ''ikr.D'' drug_conc) (\<lambda>m1.
     let self1 = self\<lparr>model := m1\<rparr>;
         s0 = set_tolerance (sim_reset (new_Simulation m1 (protocol self))) abs_tol rel_tol
     in
     ebind (head_set_constant self1 s0 ''Vhalf'' (first_value param_values ''Vhalf'')) (\<lambda>s1.
     ebind (head_set_constant self1 s1 ''Kmax'' (first_value param_values ''Kmax'')) (\<lambda>s2.
     ebind (head_set_constant self1 s2 ''Ku'' (first_value param_values ''Ku'')) (\<lambda>s3.
     ebind (head_set_constant self1 s3 ''n'' (first_value param_values ''N'')) (\<lambda>s4.
     ebind (head_set_constant self1 s4 ''halfmax'' (first_value param_values ''EC50'')) (\<lambda>s5.
     ebind (head_set_constant self1 s5 ''Kt'' (Inr (Fin (3.5 / 10 ^ 5)))) (\<lambda>s6.
     ebind (head_set_constant self1 s6 ''gKr'' (dict_get (original_constants self) ''gKr'')) (\<lambda>s7.
     Inr (self1\<lparr>sim := s7\<rparr>, t_max))))))))))"

definition custom_simulation ::
  "Engine \<Rightarrow> BindingKinetics \<Rightarrow> (string \<times> fl list) list \<Rightarrow> fl \<Rightarrow> int \<Rightarrow> fl \<Rightarrow> int \<Rightarrow>
     string list option \<Rightarrow> fl \<Rightarrow> fl \<Rightarrow> error + (BindingKinetics \<times> DataLog)" where
  "custom_simulation E self param_values drug_conc repeats timestep save_signal log_var
       abs_tol rel_tol =
     ebind (custom_setup self param_values drug_conc abs_tol rel_tol) (\<lambda>c.
     ebind (pace_and_record E (sim (fst c)) (snd c) repeats save_signal log_var timestep) (\<lambda>r.
     Inr ((fst c)\<lparr>sim := fst r\<rparr>, snd r)))"

subsection \<open>conductance\_simulation\<close>

definition conductance_setup ::
  "BindingKinetics \<Rightarrow> fl \<Rightarrow> fl \<Rightarrow> fl \<Rightarrow> DataLog option \<Rightarrow> error + (BindingKinetics \<times> fl)" where
  "conductance_setup self conductance abs_tol rel_tol set_state =
     (let fresh = sim_reset (new_Simulation (model self) (protocol self)) in
      ebind (case set_state of
               None \<Rightarrow> Inr fresh
             | Some lg \<Rightarrow> if lg = [] then Inr fresh else sim_set_state fresh lg) (\<lambda>started.
      let s0 = set_tolerance started abs_tol rel_tol in
      ebind (head_set_constant self s0 ''Vhalf'' (dict_get (original_constants self) ''Vhalf'')) (\<lambda>s1.
      ebind (head_set_constant self s1 ''Kmax'' (dict_get (original_constants self) ''Kmax'')) (\<lambda>s2.
      ebind (head_set_constant self s2 ''Ku'' (dict_get (original_constants self) ''Ku'')) (\<lambda>s3.
      ebind (head_set_constant self s3 ''n'' (dict_get (original_constants self) ''n'')) (\<lambda>s4.
      ebind (head_set_constant self s4 ''halfmax'' (dict_get (original_constants self) ''EC50'')) (\<lambda>s5.
      ebind (head_set_constant self s5 ''Kt'' (dict_get (original_constants self) ''Kt'')) (\<lambda>s6.
      ebind (head_set_constant self s6 ''gKr'' (Inr conductance)) (\<lambda>s7.
      ebind (protocol_time (protocol self)) (\<lambda>t_max.
      Inr (self\<lparr>sim := s7\<rparr>, t_max)))))))))))"

definition conductance_simulation ::
  "Engine \<Rightarrow> BindingKinetics \<Rightarrow> fl \<Rightarrow> int \<Rightarrow> fl \<Rightarrow> int \<Rightarrow> string list option \<Rightarrow> fl \<Rightarrow> fl \<Rightarrow>
     DataLog option \<Rightarrow> error + (BindingKinetics \<times> DataLog)" where
  "conductance_simulation E self conductance repeats timestep save_signal log_var
       abs_tol rel_tol set_state =
     ebind (conductance_setup self conductance abs_tol rel_tol set_state) (\<lambda>c.
     ebind (pace_and_record E (sim (fst c)) (snd c) repeats save_signal log_var timestep) (\<lambda>r.
     Inr ((fst c)\<lparr>sim := fst r\<rparr>, snd r)))"

subsection \<open>Independence of simulation calls\<close>

text \<open>
  Two instances are in the same setting when they differ at most in their current
  simulation and in the drug concentration \<open>ikr.D\<close> held by their models: the protocol,
  the head component, the saved constants and the saved initial state are the same, and
  the models are the same once the same concentration is written into both.
\<close>

definition same_setting :: "BindingKinetics \<Rightarrow> BindingKinetics \<Rightarrow> bool" where
  "same_setting a b \<longleftrightarrow>
     protocol a = protocol b \<and> current_head a = current_head b \<and>
     original_constants a = original_constants b \<and> initial_state a = initial_state b \<and>
     (model a)\<lparr>model_states := dict_update (model_states (model a)) ''ikr.D'' (Fin 0)\<rparr>
       = (model b)\<lparr>model_states := dict_update (model_states (model b)) ''ikr.D'' (Fin 0)\<rparr>"

text \<open>What a call gives its caller: the log, or the error.\<close>

definition outcome :: "error + (BindingKinetics \<times> DataLog) \<Rightarrow> error + DataLog" where
  "outcome r = ebind r (\<lambda>p. Inr (snd p))"

subsection \<open>A small model and a solver for it\<close>

text \<open>
  A model with the variables the driver reads and writes, a protocol, the driver built on
  them, and a solver for a model at rest: the state does not move, and the log holds,
  for each state variable, its value at the start of the run.
\<close>

definition ikr_model :: Model where
  "ikr_model =
     \<lparr>model_source = ''ikr'', model_components = [''engine'', ''membrane'', ''ikr''],
      model_constants =
        [(''ikr.Vhalf'', Fin 1), (''ikr.Kmax'', Fin 0), (''ikr.Ku'', Fin 0), (''ikr.n'', Fin 1),
         (''ikr.halfmax'', Fin 1), (''ikr.Kt'', Fin 0), (''ikr.gKr'', Fin 0.05),
         (''membrane.C'', Fin 1)],
      model_states = [(''ikr.O'', Fin 0), (''ikr.D'', Fin 0)]\<rparr>"

definition pulse_protocol :: Protocol where
  "pulse_protocol = \<lparr>protocol_events = [(Fin 1, Fin 50, Fin 1, Fin 1000)],
                      characteristic_time = Fin 1000\<rparr>"

definition ikr_driver :: BindingKinetics where
  "ikr_driver =
     \<lparr>model = ikr_model, protocol = Some pulse_protocol,
      sim = new_Simulation ikr_model (Some pulse_protocol),
      initial_state = [Fin 0, Fin 0], current_head = ''ikr'',
      original_constants =
        [(''Vhalf'', Fin 1), (''Kmax'', Fin 0), (''Ku'', Fin 0), (''n'', Fin 1),
         (''EC50'', Fin 1), (''Kt'', Fin 0), (''gKr'', Fin 0.05)]\<rparr>"

text \<open>The driver after a simulation of dofetilide at the concentration 10.\<close>

definition dosed_model :: Model where
  "dosed_model = ikr_model\<lparr>model_states := [(''ikr.O'', Fin 0), (''ikr.D'', Fin 10)]\<rparr>"

definition dosed_driver :: BindingKinetics where
  "dosed_driver =
     ikr_driver\<lparr>model := dosed_model,
       sim := \<lparr>sim_model = dosed_model, sim_protocol = Some pulse_protocol,
               sim_constants =
                 [(''ikr.Vhalf'', Fin (- 1.147)), (''ikr.Kmax'', Fin (10 ^ 8)),
                  (''ikr.Ku'', Fin (1.79 / 10 ^ 5)), (''ikr.n'', Fin 0.9999),
                  (''ikr.halfmax'', Fin (5.483 * 10 ^ 8)), (''ikr.Kt'', Fin (3.5 / 10 ^ 5)),
                  (''ikr.gKr'', Fin 0.05), (''membrane.C'', Fin 1)],
               sim_tolerance = (Fin (1 / 10 ^ 6), Fin (1 / 10 ^ 4)),
               sim_default_state = [Fin 0, Fin 10], sim_state = [Fin 0, Fin 10],
               sim_time = Fin 1000\<rparr>\<rparr>"

definition resting_engine :: Engine where
  "resting_engine =
     \<lparr>advance = (\<lambda>s duration. Inr (sim_state s)),
      record_run = (\<lambda>s duration log_var log_interval.
        Inr (sim_state s,
             map (\<lambda>vx. (fst vx, [snd vx]))
               (zip (map fst (model_states (sim_model s))) (sim_state s)))),
      fold_log = (\<lambda>lg period. Inr lg)\<rparr>"

section \<open>The comparison script (SA\_drugs.py)\<close>

text \<open>
  The result of the Hill fit: the coefficients, or the message the optimiser gives in
  their place when the fit fails (the script tests \<open>isinstance(Hill_curve_coefs, str)\<close>).
\<close>

datatype hill_fit = FitFailed string | FitCoefs "fl list"

text \<open>
  The classes \<open>ModelComparison\<close> and \<open>SensitivityAnalysis\<close> are not among the source
  files. The four methods of the comparison controller that the script calls are taken as
  parameters, each with the attribute \<open>drug_param_values\<close> that the script sets before
  the calls; so is the list \<open>param_names\<close>.
\<close>

record ModelComparison =
  compute_Hill ::
    "(string \<times> fl) list \<Rightarrow> BindingKinetics \<Rightarrow> fl \<Rightarrow> error + (hill_fit \<times> fl list \<times> fl list)"
  APD_sim ::
    "(string \<times> fl) list \<Rightarrow> BindingKinetics \<Rightarrow> fl list \<Rightarrow> fl list \<Rightarrow>
       error + (fl list \<times> fl list \<times> fl list)"
  compute_RMSE :: "fl list \<Rightarrow> fl list \<Rightarrow> error + fl"
  compute_ME :: "fl list \<Rightarrow> fl list \<Rightarrow> error + fl"

text \<open>
  The data frame returned: one cell per row, a row labelled by a pair. \<open>Conc i\<close> stands
  for the label \<open>'conc_' + str(i)\<close>.
\<close>

datatype cell = Text string | Number fl

datatype label = Name string | Conc nat

type_synonym frame = "((string \<times> label) \<times> cell) list"

definition APD_points :: nat where
  "APD_points = 20"

text \<open>\<open>pd.DataFrame(data, index=index)\<close>: the lengths have to agree.\<close>

definition DataFrame :: "cell list \<Rightarrow> (string \<times> label) list \<Rightarrow> error + frame" where
  "DataFrame data index =
     (if length data = length index then Inr (zip index data) else Inl ValueError)"

text \<open>
  \<open>param_values\<close> is a table of one row, here the list of its columns with their value.
  The function writes 1 into its column \<open>EC50\<close> and writes the value back before it
  builds the frame.
\<close>

definition param_evaluation ::
  "ModelComparison \<Rightarrow> BindingKinetics \<Rightarrow> BindingKinetics \<Rightarrow> string list \<Rightarrow>
     (string \<times> fl) list \<Rightarrow> string \<Rightarrow> error + frame" where
  "param_evaluation ComparisonController drug_model AP_model param_names param_values drug =
     ebind (dict_get param_values ''EC50'') (\<lambda>orig_half_effect_conc.
     let normalised = dict_update param_values ''EC50'' (Fin 1) in
     ebind (dict_get normalised ''N'') (\<lambda>Hill_n.
     let norm_constant = np_power orig_half_effect_conc (fl_div (Fin 1) Hill_n) in
     ebind (compute_Hill ComparisonController normalised drug_model norm_constant)
       (\<lambda>(fit, drug_conc_Hill, peaks_norm).
     ebind (py_index drug_conc_Hill 1) (\<lambda>conc_low.
     ebind (py_max drug_conc_Hill) (\<lambda>conc_high.
     let grid = map fl_pow10 (np_linspace (np_log10 conc_low) (np_log10 conc_high) APD_points)
     in
     ebind (case fit of
              FitFailed message \<Rightarrow>
                Inr ([NaN, NaN], replicate APD_points NaN, replicate APD_points NaN,
                     grid, NaN, NaN)
            | FitCoefs coefs \<Rightarrow>
                ebind (APD_sim ComparisonController normalised AP_model coefs grid)
                  (\<lambda>(trapping, conductance, concs).
                ebind (compute_RMSE ComparisonController trapping conductance) (\<lambda>rmse.
                ebind (compute_ME ComparisonController trapping conductance) (\<lambda>me.
                Inr (coefs, trapping, conductance, concs, rmse, me)))))
       (\<lambda>(Hill_curve_coefs, APD_trapping, APD_conductance, drug_conc_AP, RMSError, MAError).
     let conc_Hill_ind = map Conc [0..<length drug_conc_Hill];
         conc_AP_ind = map Conc [0..<length drug_conc_AP];
         index_dict =
           [(''drug'', [Name ''drug'']),
            (''drug_conc_Hill'', conc_Hill_ind),
            (''peak_current'', conc_Hill_ind),
            (''Hill_curve'', [Name ''Hill_coef'', Name ''IC50'']),
            (''param_values'', map Name param_names), (''drug_conc_AP'', conc_AP_ind),
            (''APD_trapping'', conc_AP_ind),
            (''APD_conductance'', conc_AP_ind), (''RMSE'', [Name ''RMSE'']),
            (''ME'', [Name ''ME''])];
         all_index = concat (map (\<lambda>group. map (Pair (fst group)) (snd group)) index_dict);
         restored = dict_update normalised ''EC50'' orig_half_effect_conc
     in DataFrame
          ([Text drug] @ map Number drug_conc_Hill @ map Number peaks_norm @
           map Number Hill_curve_coefs @ map Number (map snd restored) @
           map Number drug_conc_AP @ map Number APD_trapping @
           map Number APD_conductance @ [Number RMSError] @ [Number MAError])
          all_index))))))"

text \<open>The rows of a frame under a first-level label.\<close>

definition frame_rows :: "frame \<Rightarrow> string \<Rightarrow> frame" where
  "frame_rows df name = filter (\<lambda>row. fst (fst row) = name) df"

text \<open>A controller whose fit always fails, for the property on failure.\<close>

definition failing_controller :: ModelComparison where
  "failing_controller =
     \<lparr>compute_Hill = (\<lambda>values driver norm_constant.
        Inr (FitFailed ''Hill curve did not form'',
             [Fin 0, Fin 0.1, Fin 1, Fin 10], [Fin 1, Fin 1, Fin 1, Fin 1])),
      APD_sim = (\<lambda>values driver coefs concs. Inl ValueError),
      compute_RMSE = (\<lambda>xs ys. Inl ValueError),
      compute_ME = (\<lambda>xs ys. Inl ValueError)\<rparr>"

section \<open>Verified properties\<close>

subsection \<open>The parameter library\<close>

text \<open>
  Claim C10. The name \<open>droperidol\<close> is in the list \<open>drug_compounds\<close> of
  \<open>DrugConcentrations\<close> and is not a key of \<open>drug_concentrations\<close>: looking its
  default concentration grid up raises KeyError. It is the only listed compound whose
  lookup fails, so every other listed compound has a grid entry.
\<close>

theorem droperidol_has_no_concentration_grid:
  "''droperidol'' \<in> set drug_compounds \<and>
   dict_get drug_concentrations ''droperidol'' = Inl KeyError \<and>
   filter (\<lambda>d. isl (dict_get drug_concentrations d)) drug_compounds = [''droperidol'']"
  by (simp add: drug_compounds_def drug_concentrations_def dict_get_def)

subsection \<open>Sequencing and lookups\<close>

lemma ebind_Inr_iff: "ebind m f = Inr y \<longleftrightarrow> (\<exists>x. m = Inr x \<and> f x = Inr y)"
  by (cases m) auto

lemma ebind_Inl_iff: "ebind m f = Inl e \<longleftrightarrow> m = Inl e \<or> (\<exists>x. m = Inr x \<and> f x = Inl e)"
  by (cases m) auto

lemma np_max_Inl: "np_max s = Inl e \<longleftrightarrow> s = [] \<and> e = ValueError"
  by (cases s) auto

lemma dict_get_Inl: "dict_get d k = Inl e \<Longrightarrow> e = KeyError"
  by (auto simp: dict_get_def split: option.splits)

lemma py_index_Inl: "py_index xs i = Inl e \<Longrightarrow> e = IndexError"
  by (auto simp: py_index_def split: if_splits)

lemma py_index_first: "xs \<noteq> [] \<Longrightarrow> py_index xs 0 = Inr (hd xs)"
  by (cases xs) (auto simp: py_index_def)

lemma py_index_last: "xs \<noteq> [] \<Longrightarrow> py_index xs (- 1) = Inr (last xs)"
  by (cases xs rule: rev_cases) (auto simp: py_index_def nth_append)

subsection \<open>Peak extraction\<close>

lemma str_nat_digit: "n < 10 \<Longrightarrow> str_nat n = [''0123456789'' ! n]"
  by (simp add: str_nat.simps)

lemma pulse_peaks_ok:
  "pulse_peaks lg nm js = Inr ms \<Longrightarrow>
     length ms = length js \<and>
     (\<forall>j<length js. \<exists>s. dict_get lg (pulse_key nm (js ! j)) = Inr s \<and> np_max s = Inr (ms ! j))"
proof (induction js arbitrary: ms)
  case Nil
  then show ?case by simp
next
  case (Cons i js)
  from Cons.prems obtain s m ms' where
    s: "dict_get lg (pulse_key nm i) = Inr s" and m: "np_max s = Inr m"
    and r: "pulse_peaks lg nm js = Inr ms'" and e: "ms = m # ms'"
    by (auto simp: ebind_Inr_iff)
  from Cons.IH[OF r] have ih: "length ms' = length js"
    "\<forall>j<length js. \<exists>s. dict_get lg (pulse_key nm (js ! j)) = Inr s \<and> np_max s = Inr (ms' ! j)"
    by auto
  show ?case using s m e ih by (auto simp: nth_Cons split: nat.splits)
qed

lemma pulse_peaks_err:
  "pulse_peaks lg nm js = Inl e \<Longrightarrow> e = KeyError \<or> e = ValueError"
proof (induction js)
  case Nil
  then show ?case by simp
next
  case (Cons i js)
  then show ?case
    by (auto simp: ebind_Inl_iff np_max_Inl dest: dict_get_Inl)
qed

text \<open>
  A key that ends with \<open>'.' + name\<close> counts as a pulse whatever stands before the dot:
  in a log with the keys \<open>b.c\<close> and \<open>a.b.c\<close> the variable \<open>b.c\<close> has one pulse, and
  reading its series \<open>log['b.c', 0]\<close> raises KeyError.
\<close>

lemma extract_peak_stray_key:
  "keys_like [(''b.c'', [Fin 1]), (''a.b.c'', [Fin 2])] ''b.c'' = [''a.b.c''] \<and>
   extract_peak [(''b.c'', [Fin 1]), (''a.b.c'', [Fin 2])] ''b.c'' = Inl KeyError"
  by (simp add: extract_peak_def keys_like_def ends_with_def pulse_key_def str_nat_digit
        dict_get_def)

text \<open>
  Claim C4. Whenever \<open>extract_peak\<close> returns, for any log and variable name, \<open>peaks\<close>
  holds the maximum of each recorded pulse, in order (of the one unindexed series when
  the log is not folded), and the reduction is
  \<open>(peaks[0] - peaks[-1]) / peaks[0]\<close>, except that it is exactly 0 when
  \<open>peaks[0] == 0\<close>: then it is not NaN, and no call ever ends in a division error.
\<close>

theorem extract_peak_reduction:
  "extract_peak signal_log current_name \<noteq> Inl ZeroDivisionError \<and>
   (\<forall>peaks peak_reduction.
      extract_peak signal_log current_name = Inr (peaks, peak_reduction) \<longrightarrow>
        peaks \<noteq> [] \<and>
        (if keys_like signal_log current_name = []
         then \<exists>series. dict_get signal_log current_name = Inr series \<and>
                np_max series = Inr (hd peaks) \<and> length peaks = 1
         else length peaks = length (keys_like signal_log current_name) \<and>
              (\<forall>i<length peaks. \<exists>series.
                 dict_get signal_log (pulse_key current_name i) = Inr series \<and>
                 np_max series = Inr (peaks ! i))) \<and>
        peak_reduction =
          (if fl_eq (hd peaks) (Fin 0) then Fin 0
           else fl_div (fl_sub (hd peaks) (last peaks)) (hd peaks)) \<and>
        (hd peaks = Fin 0 \<longrightarrow> peak_reduction = Fin 0 \<and> \<not> fl_isnan peak_reduction))"
proof (intro conjI allI impI)
  show "extract_peak signal_log current_name \<noteq> Inl ZeroDivisionError"
    by (auto simp: extract_peak_def Let_def ebind_Inl_iff np_max_Inl
          dest: dict_get_Inl pulse_peaks_err py_index_Inl)
next
  fix peaks peak_reduction
  assume a: "extract_peak signal_log current_name = Inr (peaks, peak_reduction)"
  let ?n = "length (keys_like signal_log current_name)"
  from a obtain whole ms pf pl where
    w: "(if ?n = 0
         then ebind (dict_get signal_log current_name) (\<lambda>series.
              ebind (np_max series) (\<lambda>m. Inr [m]))
         else Inr []) = Inr whole"
    and ms: "pulse_peaks signal_log current_name [0..<?n] = Inr ms"
    and pk: "peaks = whole @ ms"
    and pf: "py_index peaks 0 = Inr pf" and pl: "py_index peaks (- 1) = Inr pl"
    and red: "peak_reduction = (if fl_eq pf (Fin 0) then Fin 0 else fl_div (fl_sub pf pl) pf)"
    by (auto simp: extract_peak_def Let_def ebind_Inr_iff)
  from pf show ne: "peaks \<noteq> []" by (auto simp: py_index_def)
  from ne pf pl have hl: "pf = hd peaks" "pl = last peaks"
    by (simp_all add: py_index_first py_index_last)
  from pulse_peaks_ok[OF ms] have len: "length ms = ?n"
    and each: "\<forall>j<?n. \<exists>s. dict_get signal_log (pulse_key current_name j) = Inr s \<and>
                 np_max s = Inr (ms ! j)"
    by auto
  show "if keys_like signal_log current_name = []
         then \<exists>series. dict_get signal_log current_name = Inr series \<and>
                np_max series = Inr (hd peaks) \<and> length peaks = 1
         else length peaks = length (keys_like signal_log current_name) \<and>
              (\<forall>i<length peaks. \<exists>series.
                 dict_get signal_log (pulse_key current_name i) = Inr series \<and>
                 np_max series = Inr (peaks ! i))"
  proof (cases "keys_like signal_log current_name = []")
    case True
    with w len pk show ?thesis by (auto simp: ebind_Inr_iff)
  next
    case False
    with w have "whole = []" by auto
    with False pk len each show ?thesis by auto
  qed
  show r: "peak_reduction =
          (if fl_eq (hd peaks) (Fin 0) then Fin 0
           else fl_div (fl_sub (hd peaks) (last peaks)) (hd peaks))"
    using red hl by simp
  show "peak_reduction = Fin 0" if "hd peaks = Fin 0"
    using r that by simp
  show "\<not> fl_isnan peak_reduction" if "hd peaks = Fin 0"
    using r that by simp
qed

theorem extract_peak_reduction_witness:
  "extract_peak [(''0.ikr.IKr'', [Fin (- 1), Fin 0, Fin (- 2)]),
                 (''1.ikr.IKr'', [Fin (- 3), Fin (- 2)])] ''ikr.IKr''
     = Inr ([Fin 0, Fin (- 2)], Fin 0) \<and>
   keys_like [(''0.ikr.IKr'', [Fin (- 1), Fin 0, Fin (- 2)]),
              (''1.ikr.IKr'', [Fin (- 3), Fin (- 2)])] ''ikr.IKr'' \<noteq> [] \<and>
   \<not> fl_isnan (Fin 0)"
  using extract_peak_reduction
    [of "[(''0.ikr.IKr'', [Fin (- 1), Fin 0, Fin (- 2)]),
          (''1.ikr.IKr'', [Fin (- 3), Fin (- 2)])]" "''ikr.IKr''"]
  by (simp add: extract_peak_def keys_like_def ends_with_def pulse_key_def
        str_nat_digit dict_get_def py_index_def)

lemma py_max_from_mem: "py_max_from m xs \<in> set (m # xs)"
  by (induction xs arbitrary: m) auto

lemma py_min_from_mem: "py_min_from m xs \<in> set (m # xs)"
  by (induction xs arbitrary: m) auto

lemma fl_less_trans_neg:
  "\<not> fl_isnan a \<Longrightarrow> \<not> fl_isnan b \<Longrightarrow> \<not> fl_isnan c \<Longrightarrow>
   \<not> fl_less a b \<Longrightarrow> \<not> fl_less b c \<Longrightarrow> \<not> fl_less a c"
  by (cases a; cases b; cases c) auto

lemma py_max_from_ge_start:
  "\<not> fl_isnan m \<Longrightarrow> \<not> list_ex fl_isnan xs \<Longrightarrow> \<not> fl_less (py_max_from m xs) m"
proof (induction xs arbitrary: m)
  case Nil
  then show ?case by (cases m) auto
next
  case (Cons x xs)
  show ?case
  proof (cases "fl_less m x")
    case True
    from Cons.prems have nx: "\<not> fl_isnan x" "\<not> list_ex fl_isnan xs" by auto
    from Cons.IH[OF nx] have "\<not> fl_less (py_max_from x xs) x" .
    moreover have "\<not> fl_less x m" using True by (cases m; cases x) auto
    moreover have "\<not> fl_isnan (py_max_from x xs)"
      using py_max_from_mem[of x xs] nx by (auto simp: list_ex_iff)
    ultimately show ?thesis
      using True Cons.prems(1) nx(1) fl_less_trans_neg[of "py_max_from x xs" x m]
      by auto
  next
    case False
    with Cons show ?thesis by auto
  qed
qed

lemma py_max_from_upper:
  "\<not> fl_isnan m \<Longrightarrow> \<not> list_ex fl_isnan xs \<Longrightarrow> v \<in> set (m # xs) \<Longrightarrow>
   \<not> fl_less (py_max_from m xs) v"
proof (induction xs arbitrary: m)
  case Nil
  then show ?case by (cases m) auto
next
  case (Cons x xs)
  let ?m' = "if fl_less m x then x else m"
  have nm': "\<not> fl_isnan ?m'" and nxs: "\<not> list_ex fl_isnan xs" and nx: "\<not> fl_isnan x"
    using Cons.prems by auto
  have res: "py_max_from m (x # xs) = py_max_from ?m' xs" by simp
  have nres: "\<not> fl_isnan (py_max_from ?m' xs)"
    using py_max_from_mem[of ?m' xs] nm' nxs by (auto simp: list_ex_iff)
  have ge: "\<not> fl_less (py_max_from ?m' xs) ?m'"
    by (rule py_max_from_ge_start[OF nm' nxs])
  from Cons.prems(3) consider "v = m" | "v = x" | "v \<in> set xs" by auto
  then show ?case
  proof cases
    case 1
    have "\<not> fl_less ?m' m" by (cases m; cases x) auto
    with ge nres nm' Cons.prems(1) have "\<not> fl_less (py_max_from ?m' xs) m"
      using fl_less_trans_neg[of "py_max_from ?m' xs" ?m' m] by blast
    with 1 res show ?thesis by simp
  next
    case 2
    have "\<not> fl_less ?m' x" using Cons.prems(1) nx by (cases m; cases x) auto
    with ge nres nm' nx have "\<not> fl_less (py_max_from ?m' xs) x"
      using fl_less_trans_neg[of "py_max_from ?m' xs" ?m' x] by blast
    with 2 res show ?thesis by simp
  next
    case 3
    then have "v \<in> set (?m' # xs)" by simp
    from Cons.IH[OF nm' nxs this] res show ?thesis by simp
  qed
qed

lemma np_max_greatest:
  assumes "np_max series = Inr (Fin m)"
  shows "Fin m \<in> set series \<and> (\<forall>v\<in>set series. \<not> fl_less (Fin m) v)"
proof (cases series)
  case Nil
  with assms show ?thesis by simp
next
  case (Cons x xs)
  with assms have nn: "\<not> list_ex fl_isnan (x # xs)" and r: "py_max_from x xs = Fin m"
    by (auto split: if_splits)
  from nn have nx: "\<not> fl_isnan x" and nxs: "\<not> list_ex fl_isnan xs" by auto
  have "Fin m \<in> set (x # xs)" using py_max_from_mem[of x xs] r by simp
  moreover have "\<forall>v\<in>set (x # xs). \<not> fl_less (Fin m) v"
    using py_max_from_upper[OF nx nxs] r by auto
  ultimately show ?thesis using Cons by simp
qed

text \<open>
  Claim C9, as amended. For a log in which \<open>keys_like\<close> finds no pulse of the variable
  (no key ends with \<open>'.' + name\<close>: an unfolded log) and whose series under the name
  itself has a finite maximum, \<open>extract_peak\<close> returns the one-element list of that
  maximum, which is a sample of the series that no sample exceeds, and a reduction of
  exactly 0.
\<close>

theorem extract_peak_unfolded:
  assumes "keys_like signal_log current_name = []"
    and "dict_get signal_log current_name = Inr series"
    and "np_max series = Inr (Fin m)"
  shows "extract_peak signal_log current_name = Inr ([Fin m], Fin 0) \<and>
         Fin m \<in> set series \<and> (\<forall>v\<in>set series. \<not> fl_less (Fin m) v)"
proof -
  have "extract_peak signal_log current_name = Inr ([Fin m], Fin 0)"
    using assms by (simp add: extract_peak_def py_index_def fl_sub_def)
  with np_max_greatest[OF assms(3)] show ?thesis by simp
qed

theorem extract_peak_unfolded_witness:
  "keys_like [(''ikr.IKr'', [Fin 1, Fin 3, Fin 2])] ''ikr.IKr'' = [] \<and>
   extract_peak [(''ikr.IKr'', [Fin 1, Fin 3, Fin 2])] ''ikr.IKr''
     = Inr ([Fin 3], Fin 0)"
  using extract_peak_unfolded
    [of "[(''ikr.IKr'', [Fin 1, Fin 3, Fin 2])]" "''ikr.IKr''" "[Fin 1, Fin 3, Fin 2]" 3]
  by (simp add: keys_like_def ends_with_def dict_get_def)

text \<open>
  The claim as stated, for whatever values of the signal, fails on a series with a NaN
  sample: the maximum is NaN, it does not compare equal to 0, and the quotient is NaN.
\<close>

theorem extract_peak_unfolded_nan:
  "keys_like [(''ikr.IKr'', [Fin 1, NaN, Fin 2])] ''ikr.IKr'' = [] \<and>
   extract_peak [(''ikr.IKr'', [Fin 1, NaN, Fin 2])] ''ikr.IKr''
     = Inr ([NaN], NaN) \<and>
   NaN \<noteq> Fin 0"
  by (simp add: keys_like_def ends_with_def extract_peak_def dict_get_def py_index_def
        fl_sub_def)

subsection \<open>APD90 with a fixed offset\<close>

lemma fl_less_total:
  "\<not> fl_isnan a \<Longrightarrow> \<not> fl_isnan b \<Longrightarrow> a \<noteq> b \<Longrightarrow> \<not> fl_less a b \<Longrightarrow> fl_less b a"
  by (cases a; cases b) auto

lemma py_min_from_le_start:
  "\<not> fl_isnan m \<Longrightarrow> \<not> list_ex fl_isnan xs \<Longrightarrow> \<not> fl_less m (py_min_from m xs)"
proof (induction xs arbitrary: m)
  case Nil
  then show ?case by (cases m) auto
next
  case (Cons x xs)
  show ?case
  proof (cases "fl_less x m")
    case True
    from Cons.prems have nx: "\<not> fl_isnan x" "\<not> list_ex fl_isnan xs" by auto
    from Cons.IH[OF nx] have "\<not> fl_less x (py_min_from x xs)" .
    moreover have "\<not> fl_less m x" using True by (cases m; cases x) auto
    moreover have "\<not> fl_isnan (py_min_from x xs)"
      using py_min_from_mem[of x xs] nx by (auto simp: list_ex_iff)
    ultimately show ?thesis
      using True Cons.prems(1) nx(1) fl_less_trans_neg[of m x "py_min_from x xs"]
      by auto
  next
    case False
    with Cons show ?thesis by auto
  qed
qed

lemma py_min_from_lower:
  "\<not> fl_isnan m \<Longrightarrow> \<not> list_ex fl_isnan xs \<Longrightarrow> v \<in> set (m # xs) \<Longrightarrow>
   \<not> fl_less v (py_min_from m xs)"
proof (induction xs arbitrary: m)
  case Nil
  then show ?case by (cases m) auto
next
  case (Cons x xs)
  let ?m' = "if fl_less x m then x else m"
  have nm': "\<not> fl_isnan ?m'" and nxs: "\<not> list_ex fl_isnan xs" and nx: "\<not> fl_isnan x"
    using Cons.prems by auto
  have res: "py_min_from m (x # xs) = py_min_from ?m' xs" by simp
  have nres: "\<not> fl_isnan (py_min_from ?m' xs)"
    using py_min_from_mem[of ?m' xs] nm' nxs by (auto simp: list_ex_iff)
  have le: "\<not> fl_less ?m' (py_min_from ?m' xs)"
    by (rule py_min_from_le_start[OF nm' nxs])
  from Cons.prems(3) consider "v = m" | "v = x" | "v \<in> set xs" by auto
  then show ?case
  proof cases
    case 1
    have "\<not> fl_less m ?m'" by (cases m; cases x) auto
    with le nres nm' Cons.prems(1) have "\<not> fl_less m (py_min_from ?m' xs)"
      using fl_less_trans_neg[of m ?m' "py_min_from ?m' xs"] by blast
    with 1 res show ?thesis by simp
  next
    case 2
    have "\<not> fl_less x ?m'" using Cons.prems(1) nx by (cases m; cases x) auto
    with le nres nm' nx have "\<not> fl_less x (py_min_from ?m' xs)"
      using fl_less_trans_neg[of x ?m' "py_min_from ?m' xs"] by blast
    with 2 res show ?thesis by simp
  next
    case 3
    then have "v \<in> set (?m' # xs)" by simp
    from Cons.IH[OF nm' nxs this] res show ?thesis by simp
  qed
qed

lemma first_index_props:
  "list_ex P xs \<Longrightarrow>
     first_index P xs < length xs \<and> P (xs ! first_index P xs) \<and>
     (\<forall>j<first_index P xs. \<not> P (xs ! j))"
proof (induction xs)
  case Nil
  then show ?case by simp
next
  case (Cons x xs)
  show ?case
  proof (cases "P x")
    case True
    then show ?thesis by simp
  next
    case False
    with Cons show ?thesis by (auto simp: nth_Cons split: nat.splits)
  qed
qed

lemma np_argmin_first_least:
  assumes "ds \<noteq> []" and "\<not> list_ex fl_isnan ds"
  shows "\<exists>i<length ds. np_argmin ds = Inr i \<and>
           (\<forall>j<length ds. \<not> fl_less (ds ! j) (ds ! i)) \<and>
           (\<forall>j<i. fl_less (ds ! i) (ds ! j))"
proof -
  from assms(1) obtain x xs where ds: "ds = x # xs" by (cases ds) auto
  define mn where "mn = py_min_from x xs"
  define i where "i = first_index (\<lambda>y. y = mn) ds"
  from assms(2) have nx: "\<not> fl_isnan x" and nxs: "\<not> list_ex fl_isnan xs"
    by (auto simp: ds)
  have nn: "\<not> fl_isnan v" if "v \<in> set ds" for v
    using assms(2) that by (auto simp: list_ex_iff)
  have mem: "mn \<in> set ds" unfolding mn_def ds by (rule py_min_from_mem)
  then have "list_ex (\<lambda>y. y = mn) ds" by (auto simp: list_ex_iff)
  from first_index_props[OF this]
  have il: "i < length ds" and at: "ds ! i = mn" and before: "\<forall>j<i. ds ! j \<noteq> mn"
    by (auto simp: i_def)
  have run: "np_argmin ds = Inr i"
    using assms(2) by (simp add: ds i_def mn_def)
  have least: "\<not> fl_less (ds ! j) (ds ! i)" if "j < length ds" for j
  proof -
    from that have "ds ! j \<in> set ds" by simp
    then have "ds ! j \<in> set (x # xs)" by (simp add: ds)
    from py_min_from_lower[OF nx nxs this] show ?thesis by (simp add: at mn_def)
  qed
  have strict: "fl_less (ds ! i) (ds ! j)" if "j < i" for j
  proof -
    from that il have jl: "j < length ds" by simp
    then have a: "\<not> fl_isnan (ds ! j)" by (intro nn) simp
    have b: "\<not> fl_isnan (ds ! i)" using il by (intro nn) simp
    from before that at have c: "ds ! j \<noteq> ds ! i" by simp
    from fl_less_total[OF a b c least[OF jl]] show ?thesis .
  qed
  from il run least strict show ?thesis by blast
qed


lemma py_max_from_Fin: "py_max_from (Fin m) (map Fin xs) = Fin (fold max xs m)"
  by (induction xs arbitrary: m) (auto simp: max_def)

lemma py_min_from_Fin: "py_min_from (Fin m) (map Fin xs) = Fin (fold min xs m)"
  by (induction xs arbitrary: m) (auto simp: min_def)

lemma py_max_Fin:
  assumes "xs \<noteq> []"
  shows "py_max (map Fin xs) = Inr (Fin (Max (set xs)))"
proof -
  from assms obtain y ys where xs: "xs = y # ys" by (cases xs) auto
  have "Max (set (y # ys)) = fold max ys y" by (rule Max.set_eq_fold)
  then show ?thesis unfolding xs by (simp add: py_max_from_Fin)
qed

lemma py_min_Fin:
  assumes "xs \<noteq> []"
  shows "py_min (map Fin xs) = Inr (Fin (Min (set xs)))"
proof -
  from assms obtain y ys where xs: "xs = y # ys" by (cases xs) auto
  have "Min (set (y # ys)) = fold min ys y" by (rule Min.set_eq_fold)
  then show ?thesis unfolding xs by (simp add: py_min_from_Fin)
qed

lemma rounded_not_nan:
  "\<forall>r. \<not> fl_isnan (rnd r) \<Longrightarrow> \<not> fl_isnan x \<Longrightarrow> \<not> fl_isnan (rounded rnd x)"
  by (cases x) (auto simp: rounded_def)

lemma fl_mul_not_nan:
  "fl_isfinite x \<Longrightarrow> x \<noteq> Fin 0 \<Longrightarrow> \<not> fl_isnan y \<Longrightarrow> \<not> fl_isnan (fl_mul x y)"
  by (cases x; cases y) (auto simp: fl_signed_inf_def)

lemma fl_add_Fin_not_nan: "\<not> fl_isnan y \<Longrightarrow> \<not> fl_isnan (fl_add (Fin a) y)"
  by (cases y) auto

lemma fl_sub_Fin_not_nan: "\<not> fl_isnan y \<Longrightarrow> \<not> fl_isnan (fl_sub (Fin a) y)"
  by (cases y) (auto simp: fl_sub_def)

lemma fl_abs_not_nan: "\<not> fl_isnan y \<Longrightarrow> \<not> fl_isnan (fl_abs y)"
  by (cases y) auto

lemma floor_log2_eq:
  assumes "2 powi e \<le> x" and "x < 2 powi (e + 1)"
  shows "\<lfloor>log 2 x\<rfloor> = e"
proof -
  have pos: "0 < x" using assms(1) by (smt (verit) zero_less_power_int)
  have a: "of_int e \<le> log 2 x"
    using assms(1) pos by (simp add: le_log_iff powr_real_of_int')
  have "2 powr real_of_int (e + 1) = (2::real) powi (e + 1)"
    by (rule powr_real_of_int') simp_all
  with assms(2) have "x < 2 powr real_of_int (e + 1)" by simp
  with pos have b: "log 2 x < of_int (e + 1)"
    by (simp add: log_less_iff)
  from a b show ?thesis by (simp add: floor_eq_iff)
qed

lemma round_double_eval:
  assumes "2 powi e \<le> \<bar>r\<bar>" and "\<bar>r\<bar> < 2 powi (e + 1)" and "- 1022 \<le> e"
  shows "round_double r =
           (let q = of_int (round_half_even (r * 2 powi (52 - e))) * 2 powi (e - 52)
            in if 2 powi 1024 \<le> \<bar>q\<bar> then (if 0 < r then PInf else MInf) else Fin q)"
proof -
  have "r \<noteq> 0" using assms(1) by (smt (verit) zero_less_power_int)
  moreover have "max \<lfloor>log 2 \<bar>r\<bar>\<rfloor> (- 1022) = e"
    using floor_log2_eq[OF assms(1,2)] assms(3) by simp
  ultimately show ?thesis by (simp add: round_double_def Let_def)
qed

lemma round_double_not_nan: "\<not> fl_isnan (round_double r)"
  by (simp add: round_double_def Let_def)

lemma round_double_tenth:
  "round_double (1 / 10) = Fin (3602879701896397 / 36028797018963968)"
  using round_double_eval[of "- 4" "1 / 10"]
  by (simp add: round_half_even_def power_int_minus field_simps)

text \<open>
  The rounding decides which sample is nearest. On the doubles 0.6000000000000001, 3
  and 0 the threshold rounds to 0.30000000000000004 and the distances of the first and
  of the last sample round to the same double, so the first index is taken and its
  duration 0 is replaced by the length 3; in exact arithmetic the last sample is
  strictly nearer and the result is 2.
\<close>

lemma APD90_ties_after_rounding:
  "APD90 round_double [Fin (5404319552844596 / 2 ^ 53), Fin 3, Fin 0] (Fin 0) (Fin 1)
     = Inr (Fin 3) \<and>
   APD90 round_exact [Fin (5404319552844596 / 2 ^ 53), Fin 3, Fin 0] (Fin 0) (Fin 1)
     = Inr (Fin 2)"
proof -
  have r2: "round_double 3 = Fin 3"
    using round_double_eval[of 1 3]
    by (simp add: round_half_even_def power_int_minus field_simps)
  have r3: "round_double (10808639105689191 / 36028797018963968)
              = Fin (1351079888211149 / 4503599627370496)"
    using round_double_eval[of "- 2" "10808639105689191 / 36028797018963968"]
    by (simp add: round_half_even_def power_int_minus field_simps)
  have r4: "round_double (1351079888211149 / 4503599627370496)
              = Fin (1351079888211149 / 4503599627370496)"
    using round_double_eval[of "- 2" "1351079888211149 / 4503599627370496"]
    by (simp add: round_half_even_def power_int_minus field_simps)
  have r5: "round_double (- (1351079888211149 / 4503599627370496))
              = Fin (- (1351079888211149 / 4503599627370496))"
    using round_double_eval[of "- 2" "- (1351079888211149 / 4503599627370496)"]
    by (simp add: round_half_even_def power_int_minus field_simps)
  have r6: "round_double (12159718993900339 / 4503599627370496)
              = Fin (3039929748475085 / 1125899906842624)"
    using round_double_eval[of 1 "12159718993900339 / 4503599627370496"]
    by (simp add: round_half_even_def power_int_minus field_simps)
  have r0: "round_double 0 = Fin 0"
    by (simp add: round_double_def)
  have a: "APD90 round_double [Fin (5404319552844596 / 2 ^ 53), Fin 3, Fin 0] (Fin 0) (Fin 1)
     = Inr (Fin 3)"
    by (simp add: APD90_def fl_sub_def rounded_def r0 round_double_tenth r2 r3 r4 r5 r6)
  have b: "APD90 round_exact [Fin (5404319552844596 / 2 ^ 53), Fin 3, Fin 0] (Fin 0) (Fin 1)
     = Inr (Fin 2)"
    by (simp add: APD90_def fl_sub_def rounded_def round_exact_def)
  from a b show ?thesis by simp
qed

text \<open>
  On the samples \<open>2 ^ 1023\<close>, \<open>- 2 ^ 1023\<close> and 0 the amplitude overflows: the threshold
  and every distance are infinite, the first index is taken and the result is the length
  3; in exact arithmetic the second sample is nearest and the result is 1.
\<close>

lemma APD90_overflow:
  "APD90 round_double [Fin (2 ^ 1023), Fin (- (2 ^ 1023)), Fin 0] (Fin 0) (Fin 1)
     = Inr (Fin 3) \<and>
   APD90 round_exact [Fin (2 ^ 1023), Fin (- (2 ^ 1023)), Fin 0] (Fin 0) (Fin 1)
     = Inr (Fin 1)"
proof -
  have o: "round_double (2 ^ 1024) = PInf"
    using round_double_eval[of 1024 "2 ^ 1024"]
    by (simp add: round_half_even_def power_int_minus field_simps)
  have r0: "round_double 0 = Fin 0"
    by (simp add: round_double_def)
  have r3: "round_double 3 = Fin 3"
    using round_double_eval[of 1 3]
    by (simp add: round_half_even_def power_int_minus field_simps)
  have s: "(2::real) ^ 1023 + 2 ^ 1023 = 2 ^ 1024" by simp
  have a: "APD90 round_double [Fin (2 ^ 1023), Fin (- (2 ^ 1023)), Fin 0] (Fin 0) (Fin 1)
     = Inr (Fin 3)"
    by (simp add: APD90_def fl_sub_def rounded_def fl_signed_inf_def s o r0 r3
          round_double_tenth del: power_numeral)
  have b: "APD90 round_exact [Fin (2 ^ 1023), Fin (- (2 ^ 1023)), Fin 0] (Fin 0) (Fin 1)
     = Inr (Fin 1)"
    by (simp add: APD90_def fl_sub_def rounded_def round_exact_def)
  from a b show ?thesis by simp
qed

text \<open>
  Claim C5, as amended. For a voltage series of numbers (not empty), an offset and a
  timestep, in an arithmetic whose operations never turn a number into NaN and in which
  \<open>0.1\<close> is a number other than 0 (the arithmetic of doubles is one), the fixed-offset
  APD90 takes the threshold \<open>V = min + 0.1 * (max - min)\<close> and the distance of each
  sample to it as the code computes them, the first index whose distance is least (no
  sample is closer, and every earlier sample is strictly farther), the duration
  \<open>index * timestep - offset\<close>, and returns the length of the whole series,
  \<open>len(signal) * timestep\<close>, instead of a duration below 1.
\<close>

theorem APD90_nearest_sample:
  fixes signal :: "real list"
  assumes "signal \<noteq> []" and "\<forall>r. \<not> fl_isnan (rnd r)"
    and "fl_isfinite (rnd 0.1)" and "rnd 0.1 \<noteq> Fin 0"
  shows "let APA = rnd (Max (set signal) - Min (set signal));
             V = rounded rnd (fl_add (Fin (Min (set signal))) (rounded rnd (fl_mul (rnd 0.1) APA)));
             distance = (\<lambda>j. fl_abs (rounded rnd (fl_sub (Fin (signal ! j)) V)))
         in \<exists>index<length signal.
              (\<forall>j<length signal. \<not> fl_less (distance j) (distance index)) \<and>
              (\<forall>j<index. fl_less (distance index) (distance j)) \<and>
              APD90 rnd (map Fin signal) offset timestep
                = Inr (let apd = rounded rnd
                                   (fl_sub (rounded rnd (fl_mul (Fin (real index)) timestep)) offset)
                       in if fl_less apd (Fin 1)
                          then rounded rnd (fl_mul (Fin (real (length signal))) timestep)
                          else apd)"
proof -
  define APA where "APA = rnd (Max (set signal) - Min (set signal))"
  define V where
    "V = rounded rnd (fl_add (Fin (Min (set signal))) (rounded rnd (fl_mul (rnd 0.1) APA)))"
  define distance where "distance = (\<lambda>j. fl_abs (rounded rnd (fl_sub (Fin (signal ! j)) V)))"
  define ds where "ds = map (\<lambda>v. fl_abs (rounded rnd (fl_sub v V))) (map Fin signal)"
  have nA: "\<not> fl_isnan APA" using assms(2) by (simp add: APA_def)
  have nV: "\<not> fl_isnan V"
    unfolding V_def
    by (intro rounded_not_nan[OF assms(2)] fl_add_Fin_not_nan fl_mul_not_nan assms(3,4) nA)
  have ne: "ds \<noteq> []" using assms(1) by (simp add: ds_def)
  have len: "length ds = length signal" by (simp add: ds_def)
  have nth: "ds ! j = distance j" if "j < length signal" for j
    using that by (simp add: ds_def distance_def)
  have "\<not> fl_isnan d" if "d \<in> set ds" for d
  proof -
    from that obtain v where "d = fl_abs (rounded rnd (fl_sub (Fin v) V))"
      by (auto simp: ds_def)
    then show ?thesis
      by (simp add: fl_abs_not_nan rounded_not_nan[OF assms(2)] fl_sub_Fin_not_nan nV)
  qed
  then have nn: "\<not> list_ex fl_isnan ds" by (auto simp: list_ex_iff)
  from np_argmin_first_least[OF ne nn] obtain index where
    il: "index < length ds" and am: "np_argmin ds = Inr index"
    and least: "\<forall>j<length ds. \<not> fl_less (ds ! j) (ds ! index)"
    and strict: "\<forall>j<index. fl_less (ds ! index) (ds ! j)"
    by blast
  have mx: "py_max (map Fin signal) = Inr (Fin (Max (set signal)))"
    by (rule py_max_Fin[OF assms(1)])
  have mn: "py_min (map Fin signal) = Inr (Fin (Min (set signal)))"
    by (rule py_min_Fin[OF assms(1)])
  have thr: "rounded rnd (fl_add (Fin (Min (set signal)))
               (rounded rnd (fl_mul (rnd 0.1)
                  (rounded rnd (fl_sub (Fin (Max (set signal))) (Fin (Min (set signal))))))))
             = V"
    by (simp add: V_def APA_def fl_sub_def rounded_def)
  have run: "APD90 rnd (map Fin signal) offset timestep
             = Inr (let apd = rounded rnd
                                (fl_sub (rounded rnd (fl_mul (Fin (real index)) timestep)) offset)
                    in if fl_less apd (Fin 1)
                       then rounded rnd (fl_mul (Fin (real (length signal))) timestep)
                       else apd)"
    unfolding APD90_def mx mn ebind.simps Let_def thr ds_def[symmetric] am
    by simp
  have i: "index < length signal" using il len by simp
  have a: "\<forall>j<length signal. \<not> fl_less (distance j) (distance index)"
    using least nth i len by auto
  have b: "\<forall>j<index. fl_less (distance index) (distance j)"
    using strict nth i by auto
  have "\<exists>index<length signal.
              (\<forall>j<length signal. \<not> fl_less (distance j) (distance index)) \<and>
              (\<forall>j<index. fl_less (distance index) (distance j)) \<and>
              APD90 rnd (map Fin signal) offset timestep
                = Inr (let apd = rounded rnd
                                   (fl_sub (rounded rnd (fl_mul (Fin (real index)) timestep)) offset)
                       in if fl_less apd (Fin 1)
                          then rounded rnd (fl_mul (Fin (real (length signal))) timestep)
                          else apd)"
    using i a b run by blast
  then show ?thesis
    unfolding Let_def distance_def V_def APA_def .
qed

theorem APD90_nearest_sample_witness:
  "[5404319552844596 / 2 ^ 53, 3, 0] \<noteq> ([] :: real list) \<and>
   (\<forall>r. \<not> fl_isnan (round_double r)) \<and>
   fl_isfinite (round_double 0.1) \<and> round_double 0.1 \<noteq> Fin 0 \<and>
   APD90 round_double (map Fin [5404319552844596 / 2 ^ 53, 3, 0]) (Fin 0) (Fin 1)
     = Inr (Fin 3)"
  using APD90_nearest_sample
    [of "[5404319552844596 / 2 ^ 53, 3, 0]" round_double "Fin 0" "Fin 1"]
    APD90_ties_after_rounding
  by (simp add: round_double_not_nan round_double_tenth)

text \<open>
  The claim as stated, for every voltage series, fails on a series with a NaN sample:
  \<open>max\<close> and \<open>min\<close> skip the NaN, the threshold is 1.1, and \<open>argmin\<close> returns the
  index of the NaN, not of the nearest sample. With the timestep 2 the code returns 2;
  the nearest sample is the first one, whose duration 0 is below 1, so the claim gives
  the length of the series, 6.
\<close>

theorem APD90_nan_sample:
  "APD90 round_double [Fin 1, NaN, Fin 2] (Fin 0) (Fin 2) = Inr (Fin 2) \<and>
   py_max [Fin 1, NaN, Fin 2] = Inr (Fin 2) \<and> py_min [Fin 1, NaN, Fin 2] = Inr (Fin 1) \<and>
   np_argmin [Fin 0.1, NaN, Fin 0.9] = Inr 1 \<and>
   fl_mul (Fin (real (length [Fin 1, NaN, Fin 2]))) (Fin 2) = Fin 6"
proof -
  have q1: "round_double 1 = Fin 1"
    using round_double_eval[of 0 1]
    by (simp add: round_half_even_def power_int_minus field_simps)
  have q2: "round_double (3602879701896397 / 36028797018963968)
              = Fin (3602879701896397 / 36028797018963968)"
    using round_double_eval[of "- 4" "3602879701896397 / 36028797018963968"]
    by (simp add: round_half_even_def power_int_minus field_simps)
  have q3: "round_double (39631676720860365 / 36028797018963968)
              = Fin (2476979795053773 / 2251799813685248)"
    using round_double_eval[of 0 "39631676720860365 / 36028797018963968"]
    by (simp add: round_half_even_def power_int_minus field_simps)
  have q4: "round_double (- (225179981368525 / 2251799813685248))
              = Fin (- (225179981368525 / 2251799813685248))"
    using round_double_eval[of "- 4" "- (225179981368525 / 2251799813685248)"]
    by (simp add: round_half_even_def power_int_minus field_simps)
  have q5: "round_double (2026619832316723 / 2251799813685248)
              = Fin (2026619832316723 / 2251799813685248)"
    using round_double_eval[of "- 1" "2026619832316723 / 2251799813685248"]
    by (simp add: round_half_even_def power_int_minus field_simps)
  have q6: "round_double 2 = Fin 2"
    using round_double_eval[of 1 2]
    by (simp add: round_half_even_def power_int_minus field_simps)
  have a: "APD90 round_double [Fin 1, NaN, Fin 2] (Fin 0) (Fin 2) = Inr (Fin 2)"
    by (simp add: APD90_def fl_sub_def rounded_def round_double_tenth q1 q2 q3 q4 q5 q6)
  then show ?thesis by simp
qed

subsection \<open>APD90 by interpolation\<close>






text \<open>
  Claim C6, on an input where the first scanned sample is already below the threshold.
  Ten samples at times 0 to 9, offset 0 and a period of 9 give a timestep of 0.9, a
  scan from index 5 and the threshold -68. The sample at index 5 is -70, so the loop
  stops at \<open>ind = 0\<close> and \<open>ind - 1\<close> is the index -1 of the sliced arrays, their last
  sample (time 9, voltage -80), not the preceding sample (time 4, voltage 10). The code
  returns 4.2; interpolating with the preceding sample gives 4.975.
\<close>

theorem APD90_update_wraps_to_last_sample:
  "APD90_timestep [Fin 0, Fin 1, Fin 2, Fin 3, Fin 4, Fin 5, Fin 6, Fin 7, Fin 8, Fin 9]
     = Inr (Fin 0.9) \<and>
   APD90_window [Fin 0, Fin 1, Fin 2, Fin 3, Fin 4, Fin 5, Fin 6, Fin 7, Fin 8, Fin 9]
       [Fin (- 80), Fin 40, Fin 30, Fin 20, Fin 10,
        Fin (- 70), Fin (- 75), Fin (- 78), Fin (- 80), Fin (- 80)]
       (Fin 0) (Fin 9) (Fin 0.9) 0
     = Inr ([Fin (- 80), Fin 40, Fin 30, Fin 20, Fin 10,
             Fin (- 70), Fin (- 75), Fin (- 78), Fin (- 80), Fin (- 80)],
            Fin (- 68), 5, Fin 0) \<and>
   first_below (Fin (- 68))
       (py_slice_from [Fin (- 80), Fin 40, Fin 30, Fin 20, Fin 10,
                       Fin (- 70), Fin (- 75), Fin (- 78), Fin (- 80), Fin (- 80)] 5) 0
     = Some (0, Fin (- 70)) \<and>
   APD90_update [Fin 0, Fin 1, Fin 2, Fin 3, Fin 4, Fin 5, Fin 6, Fin 7, Fin 8, Fin 9]
       [Fin (- 80), Fin 40, Fin 30, Fin 20, Fin 10,
        Fin (- 70), Fin (- 75), Fin (- 78), Fin (- 80), Fin (- 80)]
       (Fin 0) (Fin 9)
     = Inr [Fin (9 + (- 68 - (- 80)) / (- 70 - (- 80)) * (5 - 9) - 0)] \<and>
   (9 + (- 68 - (- 80)) / (- 70 - (- 80)) * (5 - 9) - 0 :: real) = 4.2 \<and>
   (4 + (- 68 - 10) / (- 70 - 10) * (5 - 4) - 0 :: real) = 4.975"
  by (simp add: APD90_update_def APD90_timestep_def APD90_pulse_def APD90_window_def
        APD90_crossing_def round_half_even_def py_slice_def py_slice_from_def py_bound_def
        py_index_def fl_sub_def Let_def)

subsection \<open>The simulation driver\<close>

lemma key_in_keys: "(a, b) \<in> set d \<Longrightarrow> a \<in> fst ` set d"
  by force

lemma dict_update_keys: "map fst (dict_update d k v) = map fst d"
  by (induction d) (auto simp: dict_update_def)

lemma map_of_dict_update:
  "map_of (dict_update d k v) k' =
     (if k' = k \<and> k \<in> fst ` set d then Some v else map_of d k')"
proof (induction d)
  case Nil
  then show ?case by (simp add: dict_update_def)
next
  case (Cons x d)
  obtain a b where x: "x = (a, b)" by (cases x)
  have step: "dict_update (x # d) k v = (if a = k then (k, v) else (a, b)) # dict_update d k v"
    by (simp add: dict_update_def x)
  show ?case
  proof (cases "k \<in> fst ` set d")
    case True
    with Cons.IH have ih: "map_of (dict_update d k v) k' = (if k' = k then Some v else map_of d k')"
      by simp
    from True have mem: "k \<in> fst ` set (x # d)" by simp
    show ?thesis unfolding step using ih mem by (auto simp: x)
  next
    case False
    with Cons.IH have ih: "map_of (dict_update d k v) k' = map_of d k'" by simp
    from False have mem: "k \<in> fst ` set (x # d) \<longleftrightarrow> a = k" by (auto simp: x)
    show ?thesis unfolding step using ih mem by (auto simp: x)
  qed
qed

lemma dict_get_update:
  "dict_get (dict_update d k v) k' =
     (if k' = k \<and> k \<in> set (map fst d) then Inr v else dict_get d k')"
  by (simp add: dict_get_def map_of_dict_update)

lemma dict_update_twice: "dict_update (dict_update d k v) k w = dict_update d k w"
  by (induction d) (auto simp: dict_update_def)

lemma qname_inject: "qname c a = qname c b \<longleftrightarrow> a = b"
  by (simp add: qname_def)

lemma head_set_constant_Inr:
  assumes "head_set_constant self s name val = Inr s'"
  shows "\<exists>x. val = Inr x \<and>
           qname (current_head self) name \<in> set (map fst (sim_constants s)) \<and>
           s' = s\<lparr>sim_constants :=
                    dict_update (sim_constants s) (qname (current_head self) name) x\<rparr>"
  using assms
  by (auto simp: head_set_constant_def component_var_def set_constant_def ebind_Inr_iff
        split: if_splits)

text \<open>One \<open>set_constant\<close> through the head component, read back.\<close>

lemma head_set_constant_get:
  assumes "head_set_constant self s name val = Inr s'"
  shows "dict_get (sim_constants s') v =
           (if v = qname (current_head self) name then val else dict_get (sim_constants s) v)"
    and "map fst (sim_constants s') = map fst (sim_constants s)"
    and "sim_model s' = sim_model s" and "sim_state s' = sim_state s"
  using head_set_constant_Inr[OF assms]
  by (auto simp: dict_get_update dict_update_keys dest: key_in_keys)

lemma pace_and_record_constants:
  assumes "pace_and_record E s t_max repeats save_signal log_var timestep = Inr (s', d2)"
  shows "sim_constants s' = sim_constants s"
  using assms
  by (auto simp: pace_and_record_def sim_pre_def sim_run_def ebind_Inr_iff)


lemma sim_set_state_constants:
  "sim_set_state s lg = Inr s' \<Longrightarrow> sim_constants s' = sim_constants s \<and> sim_model s' = sim_model s"
  by (auto simp: sim_set_state_def ebind_Inr_iff)

lemma conductance_setup_constants:
  assumes "conductance_setup self conductance abs_tol rel_tol set_state = Inr (c, t_max)"
  shows "dict_get (sim_constants (sim c)) v =
           (if v = qname (current_head self) ''gKr'' then Inr conductance
            else if v = qname (current_head self) ''Kt'' then dict_get (original_constants self) ''Kt''
            else if v = qname (current_head self) ''halfmax'' then dict_get (original_constants self) ''EC50''
            else if v = qname (current_head self) ''n'' then dict_get (original_constants self) ''n''
            else if v = qname (current_head self) ''Ku'' then dict_get (original_constants self) ''Ku''
            else if v = qname (current_head self) ''Kmax'' then dict_get (original_constants self) ''Kmax''
            else if v = qname (current_head self) ''Vhalf'' then dict_get (original_constants self) ''Vhalf''
            else dict_get (model_constants (model self)) v)"
    and "c = self\<lparr>sim := sim c\<rparr>"
proof -
  let ?fresh = "sim_reset (new_Simulation (model self) (protocol self))"
  from assms obtain started s1 s2 s3 s4 s5 s6 s7 where
    st: "(case set_state of None \<Rightarrow> Inr ?fresh
          | Some lg \<Rightarrow> if lg = [] then Inr ?fresh else sim_set_state ?fresh lg) = Inr started"
    and h1: "head_set_constant self (set_tolerance started abs_tol rel_tol) ''Vhalf''
               (dict_get (original_constants self) ''Vhalf'') = Inr s1"
    and h2: "head_set_constant self s1 ''Kmax'' (dict_get (original_constants self) ''Kmax'') = Inr s2"
    and h3: "head_set_constant self s2 ''Ku'' (dict_get (original_constants self) ''Ku'') = Inr s3"
    and h4: "head_set_constant self s3 ''n'' (dict_get (original_constants self) ''n'') = Inr s4"
    and h5: "head_set_constant self s4 ''halfmax'' (dict_get (original_constants self) ''EC50'') = Inr s5"
    and h6: "head_set_constant self s5 ''Kt'' (dict_get (original_constants self) ''Kt'') = Inr s6"
    and h7: "head_set_constant self s6 ''gKr'' (Inr conductance) = Inr s7"
    and c: "c = self\<lparr>sim := s7\<rparr>"
    by (auto simp: conductance_setup_def Let_def ebind_Inr_iff)
  from c show "c = self\<lparr>sim := sim c\<rparr>" by simp
  have s0: "sim_constants (set_tolerance started abs_tol rel_tol) = model_constants (model self)"
    using st
    by (auto simp: set_tolerance_def sim_reset_def new_Simulation_def
          dest: sim_set_state_constants split: option.splits if_splits)
  have "dict_get (sim_constants s7) v =
           (if v = qname (current_head self) ''gKr'' then Inr conductance
            else if v = qname (current_head self) ''Kt'' then dict_get (original_constants self) ''Kt''
            else if v = qname (current_head self) ''halfmax'' then dict_get (original_constants self) ''EC50''
            else if v = qname (current_head self) ''n'' then dict_get (original_constants self) ''n''
            else if v = qname (current_head self) ''Ku'' then dict_get (original_constants self) ''Ku''
            else if v = qname (current_head self) ''Kmax'' then dict_get (original_constants self) ''Kmax''
            else if v = qname (current_head self) ''Vhalf'' then dict_get (original_constants self) ''Vhalf''
            else dict_get (model_constants (model self)) v)"
    unfolding head_set_constant_get(1)[OF h7] head_set_constant_get(1)[OF h6]
      head_set_constant_get(1)[OF h5] head_set_constant_get(1)[OF h4]
      head_set_constant_get(1)[OF h3] head_set_constant_get(1)[OF h2]
      head_set_constant_get(1)[OF h1] s0
    by (rule refl)
  with c show "dict_get (sim_constants (sim c)) v =
           (if v = qname (current_head self) ''gKr'' then Inr conductance
            else if v = qname (current_head self) ''Kt'' then dict_get (original_constants self) ''Kt''
            else if v = qname (current_head self) ''halfmax'' then dict_get (original_constants self) ''EC50''
            else if v = qname (current_head self) ''n'' then dict_get (original_constants self) ''n''
            else if v = qname (current_head self) ''Ku'' then dict_get (original_constants self) ''Ku''
            else if v = qname (current_head self) ''Kmax'' then dict_get (original_constants self) ''Kmax''
            else if v = qname (current_head self) ''Vhalf'' then dict_get (original_constants self) ''Vhalf''
            else dict_get (model_constants (model self)) v)"
    by simp
qed

lemma original_value_Inr:
  "original_value m head name = Inr x \<Longrightarrow> dict_get (model_constants m) (qname head name) = Inr x"
  by (auto simp: original_value_def component_var_def variable_eval_def ebind_Inr_iff
        split: if_splits)

lemma BindingKinetics_init_saves:
  assumes "BindingKinetics_init m p head_name = Inr built"
  shows "dict_get (original_constants built) ''Vhalf''
           = dict_get (model_constants m) (qname (current_head built) ''Vhalf'')"
    and "dict_get (original_constants built) ''Kmax''
           = dict_get (model_constants m) (qname (current_head built) ''Kmax'')"
    and "dict_get (original_constants built) ''Ku''
           = dict_get (model_constants m) (qname (current_head built) ''Ku'')"
    and "dict_get (original_constants built) ''n''
           = dict_get (model_constants m) (qname (current_head built) ''n'')"
    and "dict_get (original_constants built) ''EC50''
           = dict_get (model_constants m) (qname (current_head built) ''halfmax'')"
    and "dict_get (original_constants built) ''Kt''
           = dict_get (model_constants m) (qname (current_head built) ''Kt'')"
    and "dict_get (original_constants built) ''gKr''
           = dict_get (model_constants m) (qname (current_head built) ''gKr'')"
    and "model built = m"
proof -
  from assms obtain head Vhalf Kmax Ku n EC50 Kt gKr where
    v: "original_value m head ''Vhalf'' = Inr Vhalf" "original_value m head ''Kmax'' = Inr Kmax"
       "original_value m head ''Ku'' = Inr Ku" "original_value m head ''n'' = Inr n"
       "original_value m head ''halfmax'' = Inr EC50" "original_value m head ''Kt'' = Inr Kt"
       "original_value m head ''gKr'' = Inr gKr"
    and b: "built = \<lparr>model = m, protocol = p, sim = new_Simulation m p,
           initial_state = sim_state (new_Simulation m p), current_head = head,
           original_constants =
             [(''Vhalf'', Vhalf), (''Kmax'', Kmax), (''Ku'', Ku), (''n'', n),
              (''EC50'', EC50), (''Kt'', Kt), (''gKr'', gKr)]\<rparr>"
    by (auto simp: BindingKinetics_init_def Let_def ebind_Inr_iff)
  note o = v[THEN original_value_Inr]
  show "dict_get (original_constants built) ''Vhalf''
           = dict_get (model_constants m) (qname (current_head built) ''Vhalf'')"
    using o by (simp add: b dict_get_def)
  show "dict_get (original_constants built) ''Kmax''
           = dict_get (model_constants m) (qname (current_head built) ''Kmax'')"
    using o by (simp add: b dict_get_def)
  show "dict_get (original_constants built) ''Ku''
           = dict_get (model_constants m) (qname (current_head built) ''Ku'')"
    using o by (simp add: b dict_get_def)
  show "dict_get (original_constants built) ''n''
           = dict_get (model_constants m) (qname (current_head built) ''n'')"
    using o by (simp add: b dict_get_def)
  show "dict_get (original_constants built) ''EC50''
           = dict_get (model_constants m) (qname (current_head built) ''halfmax'')"
    using o by (simp add: b dict_get_def)
  show "dict_get (original_constants built) ''Kt''
           = dict_get (model_constants m) (qname (current_head built) ''Kt'')"
    using o by (simp add: b dict_get_def)
  show "dict_get (original_constants built) ''gKr''
           = dict_get (model_constants m) (qname (current_head built) ''gKr'')"
    using o by (simp add: b dict_get_def)
  show "model built = m" by (simp add: b)
qed

lemma drug_setup_Kt:
  assumes "drug_setup self drug drug_conc set_state abs_tol rel_tol protocol_period
             = Inr (c, t_max)"
  shows "dict_get (sim_constants (sim c)) (qname (current_head self) ''Kt'')
           = Inr (Fin (3.5 / 10 ^ 5))"
proof -
  from assms obtain m1 s5 s6 s7 where
    h6: "head_set_constant (self\<lparr>model := m1\<rparr>) s5 ''Kt'' (Inr (Fin (3.5 / 10 ^ 5))) = Inr s6"
    and h7: "head_set_constant (self\<lparr>model := m1\<rparr>) s6 ''gKr''
               (dict_get (original_constants self) ''gKr'') = Inr s7"
    and c: "c = self\<lparr>model := m1, sim := s7\<rparr>"
    by (auto simp: drug_setup_def Let_def ebind_Inr_iff)
  have "dict_get (sim_constants s7) (qname (current_head self) ''Kt'')
          = Inr (Fin (3.5 / 10 ^ 5))"
    using head_set_constant_get(1)[OF h7, of "qname (current_head self) ''Kt''"]
      head_set_constant_get(1)[OF h6, of "qname (current_head self) ''Kt''"]
    by (simp add: qname_inject)
  with c show ?thesis by simp
qed

lemma custom_setup_Kt:
  assumes "custom_setup self param_values drug_conc abs_tol rel_tol = Inr (c, t_max)"
  shows "dict_get (sim_constants (sim c)) (qname (current_head self) ''Kt'')
           = Inr (Fin (3.5 / 10 ^ 5))"
proof -
  from assms obtain m1 s5 s6 s7 where
    h6: "head_set_constant (self\<lparr>model := m1\<rparr>) s5 ''Kt'' (Inr (Fin (3.5 / 10 ^ 5))) = Inr s6"
    and h7: "head_set_constant (self\<lparr>model := m1\<rparr>) s6 ''gKr''
               (dict_get (original_constants self) ''gKr'') = Inr s7"
    and c: "c = self\<lparr>model := m1, sim := s7\<rparr>"
    by (auto simp: custom_setup_def Let_def ebind_Inr_iff)
  have "dict_get (sim_constants s7) (qname (current_head self) ''Kt'')
          = Inr (Fin (3.5 / 10 ^ 5))"
    using head_set_constant_get(1)[OF h7, of "qname (current_head self) ''Kt''"]
      head_set_constant_get(1)[OF h6, of "qname (current_head self) ''Kt''"]
    by (simp add: qname_inject)
  with c show ?thesis by simp
qed

lemma unknown_drug:
  "dict_get binding_parameters drug = Inl KeyError \<Longrightarrow>
   drug_simulation E self drug drug_conc repeats timestep save_signal log_var set_state
       abs_tol rel_tol protocol_period = Inl KeyError"
  by (simp add: drug_simulation_def drug_setup_def binding_parameter_def)

text \<open>
  Claim C3. For every drug name, \<open>drug_simulation\<close> either fails on the lookup of an
  unknown name or, whenever it returns, has run the solver on a simulation whose constant
  \<open>Kt\<close> of the head component is the literal 3.5e-5; the same holds for every table of
  parameters given to \<open>custom_simulation\<close>. The value does not come from the drug's
  binding parameters.
\<close>

theorem trafficking_rate_is_fixed:
  "(dict_get binding_parameters drug = Inl KeyError \<longrightarrow>
      drug_simulation E self drug drug_conc repeats timestep save_signal log_var set_state
          abs_tol rel_tol protocol_period = Inl KeyError) \<and>
   (\<forall>self' d2.
      drug_simulation E self drug drug_conc repeats timestep save_signal log_var set_state
          abs_tol rel_tol protocol_period = Inr (self', d2) \<longrightarrow>
      (\<exists>configured t_max.
         drug_setup self drug drug_conc set_state abs_tol rel_tol protocol_period
           = Inr (configured, t_max) \<and>
         pace_and_record E (sim configured) t_max repeats save_signal log_var timestep
           = Inr (sim self', d2) \<and>
         dict_get (sim_constants (sim configured)) (qname (current_head self) ''Kt'')
           = Inr (Fin (3.5 / 10 ^ 5)) \<and>
         dict_get (sim_constants (sim self')) (qname (current_head self) ''Kt'')
           = Inr (Fin (3.5 / 10 ^ 5)))) \<and>
   (\<forall>self' d2.
      custom_simulation E self param_values drug_conc repeats timestep save_signal log_var
          abs_tol rel_tol = Inr (self', d2) \<longrightarrow>
      (\<exists>configured t_max.
         custom_setup self param_values drug_conc abs_tol rel_tol = Inr (configured, t_max) \<and>
         pace_and_record E (sim configured) t_max repeats save_signal log_var timestep
           = Inr (sim self', d2) \<and>
         dict_get (sim_constants (sim configured)) (qname (current_head self) ''Kt'')
           = Inr (Fin (3.5 / 10 ^ 5)) \<and>
         dict_get (sim_constants (sim self')) (qname (current_head self) ''Kt'')
           = Inr (Fin (3.5 / 10 ^ 5))))"
proof (intro conjI allI impI)
  assume "dict_get binding_parameters drug = Inl KeyError"
  then show "drug_simulation E self drug drug_conc repeats timestep save_signal log_var
      set_state abs_tol rel_tol protocol_period = Inl KeyError"
    by (rule unknown_drug)
next
  fix self' d2
  assume "drug_simulation E self drug drug_conc repeats timestep save_signal log_var set_state
          abs_tol rel_tol protocol_period = Inr (self', d2)"
  then obtain c t s where
    su: "drug_setup self drug drug_conc set_state abs_tol rel_tol protocol_period = Inr (c, t)"
    and pr: "pace_and_record E (sim c) t repeats save_signal log_var timestep = Inr (s, d2)"
    and e: "self' = c\<lparr>sim := s\<rparr>"
    by (auto simp: drug_simulation_def ebind_Inr_iff)
  from pace_and_record_constants[OF pr] have k: "sim_constants s = sim_constants (sim c)" .
  from su pr e k drug_setup_Kt[OF su]
  show "\<exists>configured t_max.
         drug_setup self drug drug_conc set_state abs_tol rel_tol protocol_period
           = Inr (configured, t_max) \<and>
         pace_and_record E (sim configured) t_max repeats save_signal log_var timestep
           = Inr (sim self', d2) \<and>
         dict_get (sim_constants (sim configured)) (qname (current_head self) ''Kt'')
           = Inr (Fin (3.5 / 10 ^ 5)) \<and>
         dict_get (sim_constants (sim self')) (qname (current_head self) ''Kt'')
           = Inr (Fin (3.5 / 10 ^ 5))"
    by auto
next
  fix self' d2
  assume "custom_simulation E self param_values drug_conc repeats timestep save_signal log_var
          abs_tol rel_tol = Inr (self', d2)"
  then obtain c t s where
    su: "custom_setup self param_values drug_conc abs_tol rel_tol = Inr (c, t)"
    and pr: "pace_and_record E (sim c) t repeats save_signal log_var timestep = Inr (s, d2)"
    and e: "self' = c\<lparr>sim := s\<rparr>"
    by (auto simp: custom_simulation_def ebind_Inr_iff)
  from pace_and_record_constants[OF pr] have k: "sim_constants s = sim_constants (sim c)" .
  from su pr e k custom_setup_Kt[OF su]
  show "\<exists>configured t_max.
         custom_setup self param_values drug_conc abs_tol rel_tol = Inr (configured, t_max) \<and>
         pace_and_record E (sim configured) t_max repeats save_signal log_var timestep
           = Inr (sim self', d2) \<and>
         dict_get (sim_constants (sim configured)) (qname (current_head self) ''Kt'')
           = Inr (Fin (3.5 / 10 ^ 5)) \<and>
         dict_get (sim_constants (sim self')) (qname (current_head self) ''Kt'')
           = Inr (Fin (3.5 / 10 ^ 5))"
    by auto
qed

theorem trafficking_rate_is_fixed_witness:
  "drug_simulation resting_engine ikr_driver ''dofetilide'' (Fin 10) 1 (Fin 0.1) 1 None None
       (Fin (1 / 10 ^ 6)) (Fin (1 / 10 ^ 4)) None
     = Inr (dosed_driver, [(''ikr.O'', [Fin 0]), (''ikr.D'', [Fin 10])]) \<and>
   dict_get (sim_constants (sim dosed_driver)) (qname (current_head ikr_driver) ''Kt'')
     = Inr (Fin (3.5 / 10 ^ 5)) \<and>
   drug_simulation resting_engine ikr_driver ''aspirin'' (Fin 10) 1 (Fin 0.1) 1 None None
       (Fin (1 / 10 ^ 6)) (Fin (1 / 10 ^ 4)) None
     = Inl KeyError \<and>
   outcome (custom_simulation resting_engine ikr_driver
       [(''Vhalf'', [Fin (- 80)]), (''Kmax'', [Fin 100]), (''Ku'', [Fin 0.01]),
        (''N'', [Fin 1]), (''EC50'', [Fin 1000])]
       (Fin 3) 1 (Fin 0.1) 1 None (Fin (1 / 10 ^ 6)) (Fin (1 / 10 ^ 4)))
     = Inr [(''ikr.O'', [Fin 0]), (''ikr.D'', [Fin 3])]"
  using trafficking_rate_is_fixed
    [of "''dofetilide''" resting_engine ikr_driver "Fin 10" 1 "Fin 0.1" 1 None None
        "Fin (1 / 10 ^ 6)" "Fin (1 / 10 ^ 4)" None
        "[(''Vhalf'', [Fin (- 80)]), (''Kmax'', [Fin 100]), (''Ku'', [Fin 0.01]),
          (''N'', [Fin 1]), (''EC50'', [Fin 1000])]"]
  by (simp add: drug_simulation_def drug_setup_def binding_parameter_def binding_parameters_def
        dict_get_def protocol_time_def ikr_driver_def ikr_model_def pulse_protocol_def
        set_state_value_def dict_update_def new_Simulation_def sim_reset_def set_tolerance_def
        head_set_constant_def component_var_def qname_def set_constant_def
        pace_and_record_def sim_pre_def sim_run_def resting_engine_def dosed_driver_def
        dosed_model_def custom_simulation_def custom_setup_def first_value_def py_index_def
        outcome_def)

text \<open>
  Claim C2. Let an instance be built by the constructor from a model \<open>m\<close>, and be used
  later with the constants and the head component saved then. Whenever
  \<open>conductance_simulation\<close> returns, it has run the solver on a simulation in which
  \<open>Vhalf\<close>, \<open>Kmax\<close>, \<open>Ku\<close>, \<open>n\<close>, \<open>halfmax\<close> and \<open>Kt\<close> of the head component have the
  values of \<open>m\<close>, \<open>gKr\<close> is the conductance given, and every other constant is the
  model's; the saved constants and the model are left as they were.
\<close>

theorem conductance_simulation_restores_constants:
  assumes "BindingKinetics_init m p head_name = Inr built"
    and "original_constants self = original_constants built"
    and "current_head self = current_head built"
    and "conductance_simulation E self conductance repeats timestep save_signal log_var
           abs_tol rel_tol set_state = Inr (self', d2)"
  shows "\<exists>configured t_max.
      conductance_setup self conductance abs_tol rel_tol set_state = Inr (configured, t_max) \<and>
      pace_and_record E (sim configured) t_max repeats save_signal log_var timestep
        = Inr (sim self', d2) \<and>
      sim_constants (sim self') = sim_constants (sim configured) \<and>
      original_constants self' = original_constants self \<and> model self' = model self \<and>
      (\<forall>v. dict_get (sim_constants (sim configured)) v =
         (if v = qname (current_head self) ''gKr'' then Inr conductance
          else if v \<in> qname (current_head self) `
                      {''Vhalf'', ''Kmax'', ''Ku'', ''n'', ''halfmax'', ''Kt''}
          then dict_get (model_constants m) v
          else dict_get (model_constants (model self)) v))"
proof -
  from assms(4) obtain c t s where
    su: "conductance_setup self conductance abs_tol rel_tol set_state = Inr (c, t)"
    and pr: "pace_and_record E (sim c) t repeats save_signal log_var timestep = Inr (s, d2)"
    and e: "self' = c\<lparr>sim := s\<rparr>"
    by (auto simp: conductance_simulation_def ebind_Inr_iff)
  note k = pace_and_record_constants[OF pr]
  note cs = conductance_setup_constants[OF su]
  note sv = BindingKinetics_init_saves[OF assms(1)]
  have fields: "original_constants self' = original_constants self" "model self' = model self"
    using e cs(2) by (metis BindingKinetics.select_convs BindingKinetics.surjective
        BindingKinetics.update_convs)+
  have "dict_get (sim_constants (sim c)) v =
         (if v = qname (current_head self) ''gKr'' then Inr conductance
          else if v \<in> qname (current_head self) `
                      {''Vhalf'', ''Kmax'', ''Ku'', ''n'', ''halfmax'', ''Kt''}
          then dict_get (model_constants m) v
          else dict_get (model_constants (model self)) v)" for v
    unfolding cs(1)[of v] using sv(1-6) assms(2,3)
    by (auto simp: qname_inject)
  with su pr e k fields show ?thesis by auto
qed

theorem conductance_simulation_restores_constants_witness:
  "BindingKinetics_init ikr_model (Some pulse_protocol) None = Inr ikr_driver \<and>
   original_constants dosed_driver = original_constants ikr_driver \<and>
   current_head dosed_driver = current_head ikr_driver \<and>
   dict_get (sim_constants (sim dosed_driver)) ''ikr.Kmax'' = Inr (Fin (10 ^ 8)) \<and>
   ebind (conductance_simulation resting_engine dosed_driver (Fin 0.02) 1 (Fin 0.1) 1 None
            (Fin (1 / 10 ^ 6)) (Fin (1 / 10 ^ 4)) None)
         (\<lambda>r. Inr (sim_constants (sim (fst r))))
     = Inr [(''ikr.Vhalf'', Fin 1), (''ikr.Kmax'', Fin 0), (''ikr.Ku'', Fin 0),
            (''ikr.n'', Fin 1), (''ikr.halfmax'', Fin 1), (''ikr.Kt'', Fin 0),
            (''ikr.gKr'', Fin 0.02), (''membrane.C'', Fin 1)]"
  using conductance_simulation_restores_constants
    [where m = ikr_model and p = "Some pulse_protocol" and head_name = None
       and built = ikr_driver and self = dosed_driver and E = resting_engine
       and conductance = "Fin 0.02" and repeats = 1 and timestep = "Fin 0.1"
       and save_signal = 1 and log_var = None and abs_tol = "Fin (1 / 10 ^ 6)"
       and rel_tol = "Fin (1 / 10 ^ 4)" and set_state = None
       and self' = "fst (projr (conductance_simulation resting_engine dosed_driver (Fin 0.02)
            1 (Fin 0.1) 1 None (Fin (1 / 10 ^ 6)) (Fin (1 / 10 ^ 4)) None))"
       and ?d2.0 = "snd (projr (conductance_simulation resting_engine dosed_driver (Fin 0.02)
            1 (Fin 0.1) 1 None (Fin (1 / 10 ^ 6)) (Fin (1 / 10 ^ 4)) None))"]
  by (simp add: BindingKinetics_init_def original_value_def variable_eval_def parent_def
        conductance_simulation_def conductance_setup_def
        dict_get_def protocol_time_def ikr_driver_def ikr_model_def pulse_protocol_def
        dict_update_def new_Simulation_def sim_reset_def set_tolerance_def
        head_set_constant_def component_var_def qname_def set_constant_def
        pace_and_record_def sim_pre_def sim_run_def resting_engine_def dosed_driver_def
        dosed_model_def)

subsection \<open>Independence of simulation calls\<close>

lemma dict_update_agree:
  "dict_update d k v = dict_update d' k v \<Longrightarrow> dict_update d k w = dict_update d' k w"
proof (induction d arbitrary: d')
  case Nil
  then show ?case by (simp add: dict_update_def)
next
  case (Cons x d)
  then obtain y e where d': "d' = y # e" by (cases d') (auto simp: dict_update_def)
  with Cons.prems have hd: "(if fst x = k then (k, v) else x) = (if fst y = k then (k, v) else y)"
    and tl: "dict_update d k v = dict_update e k v"
    by (auto simp: dict_update_def)
  from Cons.IH[OF tl] have "dict_update d k w = dict_update e k w" .
  moreover from hd have "(if fst x = k then (k, w) else x) = (if fst y = k then (k, w) else y)"
    by (cases x; cases y) (auto split: if_splits)
  ultimately show ?case unfolding d' by (simp add: dict_update_def)
qed

lemma same_setting_fields:
  assumes "same_setting a b"
  shows "b = a\<lparr>model := model b, sim := sim b\<rparr>"
    and "model_source (model b) = model_source (model a)"
    and "model_components (model b) = model_components (model a)"
    and "model_constants (model b) = model_constants (model a)"
    and "dict_update (model_states (model b)) ''ikr.D'' x
           = dict_update (model_states (model a)) ''ikr.D'' x"
    and "map fst (model_states (model b)) = map fst (model_states (model a))"
proof -
  from assms have f: "protocol a = protocol b" "current_head a = current_head b"
    "original_constants a = original_constants b" "initial_state a = initial_state b"
    and m: "(model a)\<lparr>model_states := dict_update (model_states (model a)) ''ikr.D'' (Fin 0)\<rparr>
       = (model b)\<lparr>model_states := dict_update (model_states (model b)) ''ikr.D'' (Fin 0)\<rparr>"
    by (auto simp: same_setting_def)
  from f show "b = a\<lparr>model := model b, sim := sim b\<rparr>" by simp
  from arg_cong[OF m, of model_source]
  show "model_source (model b) = model_source (model a)" by simp
  from arg_cong[OF m, of model_components]
  show "model_components (model b) = model_components (model a)" by simp
  from arg_cong[OF m, of model_constants]
  show "model_constants (model b) = model_constants (model a)" by simp
  from arg_cong[OF m, of model_states]
  have u: "dict_update (model_states (model a)) ''ikr.D'' (Fin 0)
         = dict_update (model_states (model b)) ''ikr.D'' (Fin 0)" by simp
  from dict_update_agree[OF u, of x]
  show "dict_update (model_states (model b)) ''ikr.D'' x
           = dict_update (model_states (model a)) ''ikr.D'' x" by simp
  from u show "map fst (model_states (model b)) = map fst (model_states (model a))"
    by (metis dict_update_keys)
qed

lemma same_setting_set_state_value:
  assumes "same_setting a b"
  shows "set_state_value (model b) ''ikr.D'' x = set_state_value (model a) ''ikr.D'' x"
proof -
  note f = same_setting_fields[OF assms]
  have "(model b)\<lparr>model_states := dict_update (model_states (model b)) ''ikr.D'' x\<rparr>
      = (model a)\<lparr>model_states := dict_update (model_states (model a)) ''ikr.D'' x\<rparr>"
    using f(2,3,4) f(5)[of x] by (intro Model.equality) simp_all
  then show ?thesis
    unfolding set_state_value_def using f(4,6) by simp
qed

lemma same_setting_drug_setup:
  assumes "same_setting a b"
  shows "drug_setup b drug drug_conc set_state abs_tol rel_tol protocol_period
       = drug_setup a drug drug_conc set_state abs_tol rel_tol protocol_period"
proof -
  note f = same_setting_fields(1)[OF assms]
  note sv = same_setting_set_state_value[OF assms]
  show ?thesis
    by (subst f) (simp add: drug_setup_def head_set_constant_def sv Let_def cong: option.case_cong if_cong)
qed

lemma same_setting_custom_setup:
  assumes "same_setting a b"
  shows "custom_setup b param_values drug_conc abs_tol rel_tol
       = custom_setup a param_values drug_conc abs_tol rel_tol"
proof -
  note f = same_setting_fields(1)[OF assms]
  note sv = same_setting_set_state_value[OF assms]
  show ?thesis
    by (subst f) (simp add: custom_setup_def head_set_constant_def sv Let_def cong: option.case_cong if_cong)
qed

lemma same_model_conductance_setup:
  assumes "same_setting a b" and "model a = model b"
  shows "conductance_setup b conductance abs_tol rel_tol set_state
       = conductance_setup a conductance abs_tol rel_tol set_state"
proof -
  from same_setting_fields(1)[OF assms(1)] assms(2) have f: "b = a\<lparr>sim := sim b\<rparr>"
    by (metis BindingKinetics.surjective BindingKinetics.update_convs(1))
  show ?thesis
    by (subst f)
      (simp add: conductance_setup_def head_set_constant_def Let_def
         cong: option.case_cong if_cong)
qed

lemma same_setting_refl: "same_setting a a"
  by (simp add: same_setting_def)

lemma same_setting_trans: "same_setting a b \<Longrightarrow> same_setting b c \<Longrightarrow> same_setting a c"
  by (simp add: same_setting_def)

lemma same_setting_after_dose:
  "same_setting a
     (a\<lparr>model := (model a)\<lparr>model_states := dict_update (model_states (model a)) ''ikr.D'' x\<rparr>,
        sim := s\<rparr>)"
  by (simp add: same_setting_def dict_update_twice)

lemma set_state_value_Inr:
  "set_state_value m v x = Inr m' \<Longrightarrow> m' = m\<lparr>model_states := dict_update (model_states m) v x\<rparr>"
  by (auto simp: set_state_value_def split: if_splits)

lemma drug_setup_instance:
  assumes "drug_setup a drug drug_conc set_state abs_tol rel_tol protocol_period = Inr (c, t)"
  shows "\<exists>s. c = a\<lparr>model := (model a)\<lparr>model_states :=
                      dict_update (model_states (model a)) ''ikr.D'' drug_conc\<rparr>, sim := s\<rparr>"
  using assms
  by (auto simp: drug_setup_def Let_def ebind_Inr_iff dest!: set_state_value_Inr)

lemma custom_setup_instance:
  assumes "custom_setup a param_values drug_conc abs_tol rel_tol = Inr (c, t)"
  shows "\<exists>s. c = a\<lparr>model := (model a)\<lparr>model_states :=
                      dict_update (model_states (model a)) ''ikr.D'' drug_conc\<rparr>, sim := s\<rparr>"
  using assms
  by (auto simp: custom_setup_def Let_def ebind_Inr_iff dest!: set_state_value_Inr)

lemma conductance_setup_instance:
  assumes "conductance_setup a conductance abs_tol rel_tol set_state = Inr (c, t)"
  shows "\<exists>s. c = a\<lparr>sim := s\<rparr>"
  using assms
  by (auto simp: conductance_setup_def Let_def ebind_Inr_iff)

lemma drug_simulation_again:
  assumes "drug_simulation E a drug drug_conc repeats timestep save_signal log_var set_state
          abs_tol rel_tol protocol_period = Inr (a', d)"
  shows "same_setting a a'"
    and "drug_simulation E a' drug drug_conc repeats timestep save_signal log_var set_state
          abs_tol rel_tol protocol_period = Inr (a', d)"
proof -
  from assms obtain c t s where
    su: "drug_setup a drug drug_conc set_state abs_tol rel_tol protocol_period = Inr (c, t)"
    and e: "a' = c\<lparr>sim := s\<rparr>"
    by (auto simp: drug_simulation_def ebind_Inr_iff)
  from drug_setup_instance[OF su] e show ss: "same_setting a a'"
    using same_setting_after_dose by auto
  from same_setting_drug_setup[OF ss] assms
  show "drug_simulation E a' drug drug_conc repeats timestep save_signal log_var set_state
          abs_tol rel_tol protocol_period = Inr (a', d)"
    by (simp add: drug_simulation_def)
qed

lemma custom_simulation_again:
  assumes "custom_simulation E a param_values drug_conc repeats timestep save_signal log_var
          abs_tol rel_tol = Inr (a', d)"
  shows "same_setting a a'"
    and "custom_simulation E a' param_values drug_conc repeats timestep save_signal log_var
          abs_tol rel_tol = Inr (a', d)"
proof -
  from assms obtain c t s where
    su: "custom_setup a param_values drug_conc abs_tol rel_tol = Inr (c, t)"
    and e: "a' = c\<lparr>sim := s\<rparr>"
    by (auto simp: custom_simulation_def ebind_Inr_iff)
  from custom_setup_instance[OF su] e show ss: "same_setting a a'"
    using same_setting_after_dose by auto
  from same_setting_custom_setup[OF ss] assms
  show "custom_simulation E a' param_values drug_conc repeats timestep save_signal log_var
          abs_tol rel_tol = Inr (a', d)"
    by (simp add: custom_simulation_def)
qed

lemma conductance_simulation_again:
  assumes "conductance_simulation E a conductance repeats timestep save_signal log_var
          abs_tol rel_tol set_state = Inr (a', d)"
  shows "same_setting a a'" and "model a' = model a"
    and "conductance_simulation E a' conductance repeats timestep save_signal log_var
          abs_tol rel_tol set_state = Inr (a', d)"
proof -
  from assms obtain c t s where
    su: "conductance_setup a conductance abs_tol rel_tol set_state = Inr (c, t)"
    and e: "a' = c\<lparr>sim := s\<rparr>"
    by (auto simp: conductance_simulation_def ebind_Inr_iff)
  from conductance_setup_instance[OF su] e obtain s' where a': "a' = a\<lparr>sim := s'\<rparr>"
    by auto
  show ss: "same_setting a a'" by (simp add: a' same_setting_def)
  show m: "model a' = model a" by (simp add: a')
  from same_model_conductance_setup[OF ss m[symmetric]] assms
  show "conductance_simulation E a' conductance repeats timestep save_signal log_var
          abs_tol rel_tol set_state = Inr (a', d)"
    by (simp add: conductance_simulation_def)
qed

text \<open>
  Claim C8, as amended. On two instances in the same setting (they differ at most in
  their current simulation and in the concentration \<open>ikr.D\<close> of their models),
  \<open>drug_simulation\<close> and \<open>custom_simulation\<close> with the same arguments give the same
  result, and \<open>conductance_simulation\<close> does so when the two models also hold the same
  concentration. Every call returns an instance in the same setting as the one it was
  called on, so the results of \<open>drug_simulation\<close> and \<open>custom_simulation\<close> do not
  depend on the calls made before, and calling any of the three methods again with the
  same arguments gives the same log again.
\<close>

theorem simulation_calls_independent:
  "(same_setting a b \<longrightarrow>
      drug_simulation E b drug drug_conc repeats timestep save_signal log_var set_state
          abs_tol rel_tol protocol_period
        = drug_simulation E a drug drug_conc repeats timestep save_signal log_var set_state
          abs_tol rel_tol protocol_period \<and>
      custom_simulation E b param_values drug_conc repeats timestep save_signal log_var
          abs_tol rel_tol
        = custom_simulation E a param_values drug_conc repeats timestep save_signal log_var
          abs_tol rel_tol) \<and>
   (same_setting a b \<and> model a = model b \<longrightarrow>
      conductance_simulation E b conductance repeats timestep save_signal log_var
          abs_tol rel_tol set_state
        = conductance_simulation E a conductance repeats timestep save_signal log_var
          abs_tol rel_tol set_state) \<and>
   (\<forall>a' d.
      drug_simulation E a drug drug_conc repeats timestep save_signal log_var set_state
          abs_tol rel_tol protocol_period = Inr (a', d) \<longrightarrow>
      same_setting a a' \<and>
      drug_simulation E a' drug drug_conc repeats timestep save_signal log_var set_state
          abs_tol rel_tol protocol_period = Inr (a', d)) \<and>
   (\<forall>a' d.
      custom_simulation E a param_values drug_conc repeats timestep save_signal log_var
          abs_tol rel_tol = Inr (a', d) \<longrightarrow>
      same_setting a a' \<and>
      custom_simulation E a' param_values drug_conc repeats timestep save_signal log_var
          abs_tol rel_tol = Inr (a', d)) \<and>
   (\<forall>a' d.
      conductance_simulation E a conductance repeats timestep save_signal log_var
          abs_tol rel_tol set_state = Inr (a', d) \<longrightarrow>
      same_setting a a' \<and> model a' = model a \<and>
      conductance_simulation E a' conductance repeats timestep save_signal log_var
          abs_tol rel_tol set_state = Inr (a', d)) \<and>
   same_setting a a \<and>
   (\<forall>c. same_setting a b \<and> same_setting b c \<longrightarrow> same_setting a c)"
proof (intro conjI allI impI)
  assume ss: "same_setting a b"
  show "drug_simulation E b drug drug_conc repeats timestep save_signal log_var set_state
          abs_tol rel_tol protocol_period
        = drug_simulation E a drug drug_conc repeats timestep save_signal log_var set_state
          abs_tol rel_tol protocol_period"
    by (simp add: drug_simulation_def same_setting_drug_setup[OF ss])
  show "custom_simulation E b param_values drug_conc repeats timestep save_signal log_var
          abs_tol rel_tol
        = custom_simulation E a param_values drug_conc repeats timestep save_signal log_var
          abs_tol rel_tol"
    by (simp add: custom_simulation_def same_setting_custom_setup[OF ss])
next
  assume "same_setting a b \<and> model a = model b"
  then show "conductance_simulation E b conductance repeats timestep save_signal log_var
          abs_tol rel_tol set_state
        = conductance_simulation E a conductance repeats timestep save_signal log_var
          abs_tol rel_tol set_state"
    using same_model_conductance_setup[of a b conductance abs_tol rel_tol set_state]
    by (simp add: conductance_simulation_def)
next
  fix a' d
  assume r: "drug_simulation E a drug drug_conc repeats timestep save_signal log_var set_state
          abs_tol rel_tol protocol_period = Inr (a', d)"
  from drug_simulation_again(1)[OF r] show "same_setting a a'" .
  from drug_simulation_again(2)[OF r]
  show "drug_simulation E a' drug drug_conc repeats timestep save_signal log_var set_state
          abs_tol rel_tol protocol_period = Inr (a', d)" .
next
  fix a' d
  assume r: "custom_simulation E a param_values drug_conc repeats timestep save_signal log_var
          abs_tol rel_tol = Inr (a', d)"
  from custom_simulation_again(1)[OF r] show "same_setting a a'" .
  from custom_simulation_again(2)[OF r]
  show "custom_simulation E a' param_values drug_conc repeats timestep save_signal log_var
          abs_tol rel_tol = Inr (a', d)" .
next
  fix a' d
  assume r: "conductance_simulation E a conductance repeats timestep save_signal log_var
          abs_tol rel_tol set_state = Inr (a', d)"
  from conductance_simulation_again(1)[OF r] show "same_setting a a'" .
  from conductance_simulation_again(2)[OF r] show "model a' = model a" .
  from conductance_simulation_again(3)[OF r]
  show "conductance_simulation E a' conductance repeats timestep save_signal log_var
          abs_tol rel_tol set_state = Inr (a', d)" .
next
  show "same_setting a a" by (rule same_setting_refl)
next
  fix c
  assume "same_setting a b \<and> same_setting b c"
  then show "same_setting a c" by (blast intro: same_setting_trans)
qed

theorem simulation_calls_independent_witness:
  "same_setting ikr_driver dosed_driver \<and>
   drug_simulation resting_engine ikr_driver ''dofetilide'' (Fin 10) 1 (Fin 0.1) 1 None None
       (Fin (1 / 10 ^ 6)) (Fin (1 / 10 ^ 4)) None
     = Inr (dosed_driver, [(''ikr.O'', [Fin 0]), (''ikr.D'', [Fin 10])]) \<and>
   drug_simulation resting_engine dosed_driver ''dofetilide'' (Fin 10) 1 (Fin 0.1) 1 None None
       (Fin (1 / 10 ^ 6)) (Fin (1 / 10 ^ 4)) None
     = Inr (dosed_driver, [(''ikr.O'', [Fin 0]), (''ikr.D'', [Fin 10])])"
proof -
  have ss: "same_setting ikr_driver dosed_driver"
    by (simp add: same_setting_def ikr_driver_def dosed_driver_def dosed_model_def
          ikr_model_def dict_update_def)
  have first: "drug_simulation resting_engine ikr_driver ''dofetilide'' (Fin 10) 1 (Fin 0.1) 1
       None None (Fin (1 / 10 ^ 6)) (Fin (1 / 10 ^ 4)) None
     = Inr (dosed_driver, [(''ikr.O'', [Fin 0]), (''ikr.D'', [Fin 10])])"
    by (simp add: drug_simulation_def drug_setup_def binding_parameter_def
        binding_parameters_def
        dict_get_def protocol_time_def ikr_driver_def ikr_model_def pulse_protocol_def
        set_state_value_def dict_update_def new_Simulation_def sim_reset_def set_tolerance_def
        head_set_constant_def component_var_def qname_def set_constant_def
        pace_and_record_def sim_pre_def sim_run_def resting_engine_def dosed_driver_def
        dosed_model_def)
  from simulation_calls_independent
    [where a = ikr_driver and b = dosed_driver and E = resting_engine
       and drug = "''dofetilide''" and drug_conc = "Fin 10" and repeats = 1
       and timestep = "Fin 0.1" and save_signal = 1 and log_var = None and set_state = None
       and abs_tol = "Fin (1 / 10 ^ 6)" and rel_tol = "Fin (1 / 10 ^ 4)"
       and protocol_period = None, THEN conjunct1, rule_format, OF ss, THEN conjunct1]
  have "drug_simulation resting_engine dosed_driver ''dofetilide'' (Fin 10) 1 (Fin 0.1) 1
       None None (Fin (1 / 10 ^ 6)) (Fin (1 / 10 ^ 4)) None
     = drug_simulation resting_engine ikr_driver ''dofetilide'' (Fin 10) 1 (Fin 0.1) 1
       None None (Fin (1 / 10 ^ 6)) (Fin (1 / 10 ^ 4)) None" .
  with ss first show ?thesis by simp
qed

text \<open>
  The claim as stated also makes the log of \<open>conductance_simulation\<close> independent of
  the calls made before it. It is not: the method builds its simulation from the model,
  in which the last \<open>drug_simulation\<close> left its concentration, and does not reset it.
  With a solver that logs the state it starts from, the log of the same call differs
  after a simulation of dofetilide at the concentration 10.
\<close>

theorem conductance_simulation_depends_on_history:
  "outcome (conductance_simulation resting_engine ikr_driver (Fin 0.02) 1 (Fin 0.1) 1 None
       (Fin (1 / 10 ^ 6)) (Fin (1 / 10 ^ 4)) None)
     = Inr [(''ikr.O'', [Fin 0]), (''ikr.D'', [Fin 0])] \<and>
   ebind (drug_simulation resting_engine ikr_driver ''dofetilide'' (Fin 10) 1 (Fin 0.1) 1
            None None (Fin (1 / 10 ^ 6)) (Fin (1 / 10 ^ 4)) None)
         (\<lambda>r. outcome (conductance_simulation resting_engine (fst r) (Fin 0.02) 1 (Fin 0.1) 1
                  None (Fin (1 / 10 ^ 6)) (Fin (1 / 10 ^ 4)) None))
     = Inr [(''ikr.O'', [Fin 0]), (''ikr.D'', [Fin 10])]"
  by (simp add: outcome_def conductance_simulation_def conductance_setup_def
        drug_simulation_def drug_setup_def binding_parameter_def binding_parameters_def
        dict_get_def protocol_time_def ikr_driver_def ikr_model_def pulse_protocol_def
        set_state_value_def dict_update_def new_Simulation_def sim_reset_def set_tolerance_def
        head_set_constant_def component_var_def qname_def set_constant_def
        pace_and_record_def sim_pre_def sim_run_def resting_engine_def)

subsection \<open>The comparison script\<close>

lemma length_np_linspace: "length (np_linspace start stop num) = num"
  by (cases num) (auto simp: np_linspace_def)

lemma frame_rows_append: "frame_rows (xs @ ys) name = frame_rows xs name @ frame_rows ys name"
  by (simp add: frame_rows_def)

lemma frame_rows_Cons:
  "frame_rows (((g, l), c) # xs) name
     = (if g = name then ((g, l), c) # frame_rows xs name else frame_rows xs name)"
  by (simp add: frame_rows_def)

lemma frame_rows_Nil: "frame_rows [] name = []"
  by (simp add: frame_rows_def)

lemma frame_rows_group:
  "frame_rows (zip (map (Pair g) ls) cs) name
     = (if g = name then zip (map (Pair g) ls) cs else [])"
proof -
  have "\<forall>row\<in>set (zip (map (Pair g) ls) cs). fst (fst row) = g"
    by (auto dest!: set_zip_leftD)
  then show ?thesis
    by (auto simp: frame_rows_def filter_empty_conv filter_id_conv)
qed

lemma map_snd_zip_group:
  "length ls = length cs \<Longrightarrow> map snd (zip (map (Pair g) ls) cs) = cs"
  by (simp add: map_snd_zip)

text \<open>
  Claim C1. When the Hill fit fails, that is when \<open>compute_Hill\<close> returns a message
  in place of the coefficients, together with at least two concentrations, as many
  peaks as concentrations, and a table with one value per parameter name,
  \<open>param_evaluation\<close> returns a frame and raises nothing: the two Hill coefficients,
  the \<open>APD_points\<close> values of \<open>APD_trapping\<close> and of \<open>APD_conductance\<close>, the RMSE and
  the ME are all NaN. The simulations of the action potential are not run.
\<close>

theorem fit_failure_reported_as_nan:
  assumes "dict_get param_values ''EC50'' = Inr orig_half_effect_conc"
    and "dict_get (dict_update param_values ''EC50'' (Fin 1)) ''N'' = Inr Hill_n"
    and "compute_Hill ComparisonController (dict_update param_values ''EC50'' (Fin 1))
           drug_model (np_power orig_half_effect_conc (fl_div (Fin 1) Hill_n))
         = Inr (FitFailed message, drug_conc_Hill, peaks_norm)"
    and "2 \<le> length drug_conc_Hill"
    and "length peaks_norm = length drug_conc_Hill"
    and "length param_names = length param_values"
  shows "\<exists>big_df.
           param_evaluation ComparisonController drug_model AP_model param_names
             param_values drug = Inr big_df \<and>
           frame_rows big_df ''Hill_curve''
             = [((''Hill_curve'', Name ''Hill_coef''), Number NaN),
                ((''Hill_curve'', Name ''IC50''), Number NaN)] \<and>
           map snd (frame_rows big_df ''APD_trapping'') = replicate APD_points (Number NaN) \<and>
           map snd (frame_rows big_df ''APD_conductance'') = replicate APD_points (Number NaN) \<and>
           frame_rows big_df ''RMSE'' = [((''RMSE'', Name ''RMSE''), Number NaN)] \<and>
           frame_rows big_df ''ME'' = [((''ME'', Name ''ME''), Number NaN)]"
proof -
  from assms(4) obtain c0 c1 rest where h: "drug_conc_Hill = c0 # c1 # rest"
    by (cases drug_conc_Hill; cases "tl drug_conc_Hill") auto
  have i1: "py_index drug_conc_Hill 1 = Inr c1"
    by (simp add: h py_index_def)
  have mx: "py_max drug_conc_Hill = Inr (py_max_from c0 (c1 # rest))"
    by (simp add: h)
  define grid where "grid = map fl_pow10
    (np_linspace (np_log10 c1) (np_log10 (py_max_from c0 (c1 # rest))) APD_points)"
  have lg: "length grid = APD_points"
    by (simp add: grid_def length_np_linspace)
  define restored where
    "restored = dict_update (dict_update param_values ''EC50'' (Fin 1)) ''EC50''
                  orig_half_effect_conc"
  have lr: "length restored = length param_names"
    using assms(6) by (simp add: restored_def dict_update_def)
  define big_df where "big_df =
    zip (concat (map (\<lambda>group. map (Pair (fst group)) (snd group))
           [(''drug'', [Name ''drug'']),
            (''drug_conc_Hill'', map Conc [0..<length drug_conc_Hill]),
            (''peak_current'', map Conc [0..<length drug_conc_Hill]),
            (''Hill_curve'', [Name ''Hill_coef'', Name ''IC50'']),
            (''param_values'', map Name param_names),
            (''drug_conc_AP'', map Conc [0..<length grid]),
            (''APD_trapping'', map Conc [0..<length grid]),
            (''APD_conductance'', map Conc [0..<length grid]), (''RMSE'', [Name ''RMSE'']),
            (''ME'', [Name ''ME''])]))
        ([Text drug] @ map Number drug_conc_Hill @ map Number peaks_norm @
           map Number [NaN, NaN] @ map Number (map snd restored) @
           map Number grid @ map Number (replicate APD_points NaN) @
           map Number (replicate APD_points NaN) @ [Number NaN] @ [Number NaN])"
  have run: "param_evaluation ComparisonController drug_model AP_model param_names
             param_values drug = Inr big_df"
    unfolding param_evaluation_def assms(1) ebind.simps Let_def assms(2) assms(3) prod.case
      i1 mx hill_fit.case grid_def[symmetric] restored_def[symmetric] DataFrame_def
    using lg lr assms(5) by (simp add: big_df_def)
  have split: "big_df =
      zip (map (Pair ''drug'') [Name ''drug'']) [Text drug] @
      zip (map (Pair ''drug_conc_Hill'') (map Conc [0..<length drug_conc_Hill]))
          (map Number drug_conc_Hill) @
      zip (map (Pair ''peak_current'') (map Conc [0..<length drug_conc_Hill]))
          (map Number peaks_norm) @
      zip (map (Pair ''Hill_curve'') [Name ''Hill_coef'', Name ''IC50''])
          [Number NaN, Number NaN] @
      zip (map (Pair ''param_values'') (map Name param_names)) (map Number (map snd restored)) @
      zip (map (Pair ''drug_conc_AP'') (map Conc [0..<length grid])) (map Number grid) @
      zip (map (Pair ''APD_trapping'') (map Conc [0..<length grid]))
          (replicate APD_points (Number NaN)) @
      zip (map (Pair ''APD_conductance'') (map Conc [0..<length grid]))
          (replicate APD_points (Number NaN)) @
      zip (map (Pair ''RMSE'') [Name ''RMSE'']) [Number NaN] @
      zip (map (Pair ''ME'') [Name ''ME'']) [Number NaN]"
    unfolding big_df_def using lg lr assms(5) by (simp add: zip_append)
  have hc: "frame_rows big_df ''Hill_curve''
             = [((''Hill_curve'', Name ''Hill_coef''), Number NaN),
                ((''Hill_curve'', Name ''IC50''), Number NaN)]"
    unfolding split frame_rows_append frame_rows_group by simp
  have tr: "map snd (frame_rows big_df ''APD_trapping'') = replicate APD_points (Number NaN)"
    unfolding split frame_rows_append frame_rows_group using lg by (simp add: map_snd_zip)
  have co: "map snd (frame_rows big_df ''APD_conductance'') = replicate APD_points (Number NaN)"
    unfolding split frame_rows_append frame_rows_group using lg by (simp add: map_snd_zip)
  have rm: "frame_rows big_df ''RMSE'' = [((''RMSE'', Name ''RMSE''), Number NaN)]"
    unfolding split frame_rows_append frame_rows_group by simp
  have me: "frame_rows big_df ''ME'' = [((''ME'', Name ''ME''), Number NaN)]"
    unfolding split frame_rows_append frame_rows_group by simp
  from run hc tr co rm me show ?thesis by blast
qed

theorem fit_failure_reported_as_nan_witness:
  "compute_Hill failing_controller
       (dict_update [(''Vhalf'', Fin (- 80)), (''Kmax'', Fin 100), (''Ku'', Fin 0.01),
                     (''N'', Fin 1), (''EC50'', Fin 1000)] ''EC50'' (Fin 1))
       ikr_driver (np_power (Fin 1000) (fl_div (Fin 1) (Fin 1)))
     = Inr (FitFailed ''Hill curve did not form'',
            [Fin 0, Fin 0.1, Fin 1, Fin 10], [Fin 1, Fin 1, Fin 1, Fin 1]) \<and>
   (\<exists>big_df.
      param_evaluation failing_controller ikr_driver ikr_driver
          [''Vhalf'', ''Kmax'', ''Ku'', ''N'', ''EC50'']
          [(''Vhalf'', Fin (- 80)), (''Kmax'', Fin 100), (''Ku'', Fin 0.01),
           (''N'', Fin 1), (''EC50'', Fin 1000)] ''drugA'' = Inr big_df \<and>
      frame_rows big_df ''Hill_curve''
        = [((''Hill_curve'', Name ''Hill_coef''), Number NaN),
           ((''Hill_curve'', Name ''IC50''), Number NaN)] \<and>
      map snd (frame_rows big_df ''APD_trapping'') = replicate APD_points (Number NaN) \<and>
      map snd (frame_rows big_df ''APD_conductance'') = replicate APD_points (Number NaN) \<and>
      frame_rows big_df ''RMSE'' = [((''RMSE'', Name ''RMSE''), Number NaN)] \<and>
      frame_rows big_df ''ME'' = [((''ME'', Name ''ME''), Number NaN)])"
proof -
  let ?table = "[(''Vhalf'', Fin (- 80)), (''Kmax'', Fin 100), (''Ku'', Fin 0.01),
                  (''N'', Fin 1), (''EC50'', Fin 1000)]"
  let ?names = "[''Vhalf'', ''Kmax'', ''Ku'', ''N'', ''EC50'']"
  have h1: "dict_get ?table ''EC50'' = Inr (Fin 1000)"
    by (simp add: dict_get_def)
  have h2: "dict_get (dict_update ?table ''EC50'' (Fin 1)) ''N'' = Inr (Fin 1)"
    by (simp add: dict_get_def dict_update_def)
  have h3: "compute_Hill failing_controller (dict_update ?table ''EC50'' (Fin 1))
              ikr_driver (np_power (Fin 1000) (fl_div (Fin 1) (Fin 1)))
            = Inr (FitFailed ''Hill curve did not form'',
                   [Fin 0, Fin 0.1, Fin 1, Fin 10], [Fin 1, Fin 1, Fin 1, Fin 1])"
    by (simp add: failing_controller_def)
  have h4: "2 \<le> length [Fin 0, Fin 0.1, Fin 1, Fin 10]" by simp
  have h5: "length [Fin 1, Fin 1, Fin 1, Fin 1 :: fl] = length [Fin 0, Fin 0.1, Fin 1, Fin 10]"
    by simp
  have h6: "length ?names = length ?table" by simp
  from fit_failure_reported_as_nan[OF h1 h2 h3 h4 h5 h6, of ikr_driver "''drugA''"] h3
  show ?thesis by blast
qed

end
